theory Spec2Isabelle
  imports Main "HOL-Library.Monad_Syntax"
begin

section \<open>The GitHub integration of ngbuild (integrations/github/github.go)\<close>

text \<open>
  A shallow embedding of the pull-request tracker, the build ledger, the OAuth callback
  and the webhook registration of \<^verbatim>\<open>github.go\<close>.

  Conventions of the embedding.
  \<^item> A Go pointer that the code dereferences is an \<open>option\<close>; dereferencing \<open>nil\<close>
    is the outcome \<open>Panicked\<close>, with the state as it was when the panic happened.
  \<^item> The receiver \<^verbatim>\<open>g *Github\<close> is threaded through every function as a record; the
    record also carries the part of the outside world the code acts on: the state of the
    build engine, the list of effectful calls made so far, the messages logged, the token
    cache and the number of broadcasts on \<^verbatim>\<open>clientHasSet\<close>.
  \<^item> \<^verbatim>\<open>core.App\<close> and \<^verbatim>\<open>core.Build\<close> are interfaces whose implementations are not
    part of this file: they are records of functions over an abstract engine state \<open>'e\<close>.
    The answers of the GitHub API and of the OAuth token endpoint are functions of the
    record \<open>env\<close>.
  \<^item> \<^verbatim>\<open>GetBuild\<close> only reads the engine; \<^verbatim>\<open>NewBuild\<close>, \<^verbatim>\<open>Stop\<close>, \<^verbatim>\<open>Ref\<close> and
    \<^verbatim>\<open>Unref\<close> may change it, and each of them is recorded in \<open>calls\<close>.
  \<^item> Every operation runs alone, from its first line to its last: the lock \<^verbatim>\<open>g.m\<close>
    and the interleaving of handlers are not part of the embedding.
  \<^item> A Go \<^verbatim>\<open>int\<close> is an \<open>int\<close> here: the identifiers are only printed, never
    computed with.
  \<^item> Field names are the Go names; where two structs share a field name the later record
    carries a short prefix.
\<close>

subsection \<open>strconv.Itoa\<close>

definition digit :: "nat \<Rightarrow> char" where
  "digit d = ''0123456789'' ! d"

function utoa :: "nat \<Rightarrow> string" where
  "utoa n = (if n < 10 then [digit n] else utoa (n div 10) @ [digit (n mod 10)])"
  by pat_completeness auto
termination
  by (relation "measure id") auto

declare utoa.simps [simp del]

definition Itoa :: "int \<Rightarrow> string" where
  "Itoa i = (if i < 0 then CHR ''-'' # utoa (nat (- i)) else utoa (nat i))"

subsection \<open>strings.Contains\<close>

fun hasPrefix :: "string \<Rightarrow> string \<Rightarrow> bool" where
  "hasPrefix s [] = True"
| "hasPrefix [] (c # cs) = False"
| "hasPrefix (d # ds) (c # cs) = (d = c \<and> hasPrefix ds cs)"

fun Contains :: "string \<Rightarrow> string \<Rightarrow> bool" where
  "Contains [] sub = hasPrefix [] sub"
| "Contains (c # cs) sub = (hasPrefix (c # cs) sub \<or> Contains cs sub)"

subsection \<open>Data of the GitHub API (go-github)\<close>

record User =
  Login :: "string option"

record Repository =
  Owner :: "User option"
  Name :: "string option"
  SSHURL :: "string option"

record PullRequestBranch =
  Ref :: "string option"
  SHA :: "string option"
  Repo :: "Repository option"

record PullRequest =
  ID :: "int option"
  Number :: "int option"
  Title :: "string option"
  HTMLURL :: "string option"
  PullUser :: "User option"
  Head :: "PullRequestBranch option"
  Base :: "PullRequestBranch option"

record PullRequestEvent =
  EventPullRequest :: "PullRequest option"

record Hook =
  HookName :: string
  Active :: bool
  HookConfig :: "string \<rightharpoonup> string"
  Events :: "string list"

subsection \<open>Data of the build engine (package core)\<close>

text \<open>
  Modelled from the spec: \<^verbatim>\<open>core.BuildConfig\<close>, \<^verbatim>\<open>core.NewBuildConfig\<close>,
  \<^verbatim>\<open>SetMetadata\<close> and \<^verbatim>\<open>GetMetadata\<close> are not in the given source. A build
  configuration carries the fields that \<^verbatim>\<open>buildPullRequest\<close> assigns and a table of
  metadata tags; a fresh configuration is empty, and a tag that was never set reads as the
  empty string.
\<close>

record BuildConfig =
  bcTitle :: string
  URL :: string
  HeadRepo :: string
  HeadBranch :: string
  HeadHash :: string
  BaseRepo :: string
  BaseBranch :: string
  BaseHash :: string
  Group :: string
  Metadata :: "string \<rightharpoonup> string"

definition NewBuildConfig :: BuildConfig where
  "NewBuildConfig =
     \<lparr>bcTitle = [], URL = [], HeadRepo = [], HeadBranch = [], HeadHash = [],
      BaseRepo = [], BaseBranch = [], BaseHash = [], Group = [], Metadata = Map.empty\<rparr>"

definition SetMetadata :: "string \<Rightarrow> string \<Rightarrow> BuildConfig \<Rightarrow> BuildConfig" where
  "SetMetadata k v c = c\<lparr>Metadata := (Metadata c)(k \<mapsto> v)\<rparr>"

definition GetMetadata :: "BuildConfig \<Rightarrow> string \<Rightarrow> string" where
  "GetMetadata c k = (case Metadata c k of None \<Rightarrow> [] | Some v \<Rightarrow> v)"

text \<open>
  \<^verbatim>\<open>core.Build\<close>: the token and configuration of a build, and its methods
  \<^verbatim>\<open>Stop\<close>, \<^verbatim>\<open>Ref\<close> and \<^verbatim>\<open>Unref\<close> as transformers of the engine state.
\<close>

record 'e Build =
  Token :: string
  Config :: BuildConfig
  Stop :: "'e \<Rightarrow> 'e"
  RefBuild :: "'e \<Rightarrow> 'e"
  UnrefBuild :: "'e \<Rightarrow> 'e"

text \<open>
  \<^verbatim>\<open>core.App\<close>: \<^verbatim>\<open>GetBuild\<close> answers with a build (or \<^verbatim>\<open>nil\<close>) and an error (or
  \<^verbatim>\<open>nil\<close>); \<^verbatim>\<open>NewBuild\<close> answers with a token and an error and changes the engine.
\<close>

record 'e App =
  AppName :: string
  GetBuild :: "'e \<Rightarrow> string \<Rightarrow> 'e Build option \<times> string option"
  NewBuild :: "'e \<Rightarrow> string \<Rightarrow> BuildConfig \<Rightarrow> (string \<times> string option) \<times> 'e"

subsection \<open>Data of the integration\<close>

record pullRequestStatus =
  pull :: PullRequest
  currentBuild :: string
  mergeOnPass :: bool

record githubConfig =
  ClientID :: string
  ClientSecret :: string
  cfgOwner :: string
  cfgRepo :: string
  IgnoredBranches :: "string list"
  PublicKey :: string
  BuildBranches :: "string list"
  CancelOnNewCommit :: bool
  MergeOnPass :: bool
  MergeOnPassAuthWords :: "string list"

record 'e githubApp =
  app :: "'e App"
  config :: githubConfig

record oauth2Token =
  AccessToken :: string

record oauth2Config =
  o2ClientID :: string
  o2ClientSecret :: string
  Scopes :: "string list"

text \<open>The authenticated API client: the token source it was built from.\<close>

record Client =
  tokenSourceConfig :: oauth2Config
  tokenSourceToken :: oauth2Token

text \<open>The effectful calls that leave the integration, in the order they are made.\<close>

datatype call =
    NewBuildCall string BuildConfig
  | StopCall string
  | RefCall string
  | UnrefCall string
  | CreateHookCall string string Hook

record 'e Github =
  globalConfig :: githubConfig
  client :: "Client option"
  trackedPullRequests :: "string \<rightharpoonup> pullRequestStatus"
  trackedBuilds :: "'e Build list"
  engine :: 'e
  calls :: "call list"
  logged :: "string list"
  cache :: "string \<rightharpoonup> string"
  broadcasts :: nat

text \<open>
  What the outside answers: the process nonce \<^verbatim>\<open>oauth2State\<close>, the token endpoint
  (\<^verbatim>\<open>cfg.Exchange\<close>, an error text or a token), the GitHub API
  (\<^verbatim>\<open>IsCollaborator\<close>, \<^verbatim>\<open>Repositories.Get\<close>, \<^verbatim>\<open>CreateHook\<close>; an error is its
  text) and \<^verbatim>\<open>core.GetHTTPServerURL\<close>.
\<close>

record env =
  oauth2State :: string
  Exchange :: "oauth2Config \<Rightarrow> string \<Rightarrow> string + oauth2Token"
  IsCollaborator :: "string \<Rightarrow> string \<Rightarrow> string \<Rightarrow> bool \<times> string option"
  RepositoriesGet :: "string \<Rightarrow> string \<Rightarrow> string option"
  CreateHook :: "string \<Rightarrow> string \<Rightarrow> Hook \<Rightarrow> string option"
  GetHTTPServerURL :: string

datatype outcome = Returned | Panicked

subsection \<open>Logging\<close>

text \<open>
  \<^verbatim>\<open>loginfof\<close>, \<^verbatim>\<open>logwarnf\<close> and \<^verbatim>\<open>logcritf\<close> format a message and return it;
  \<open>logged\<close> collects the messages they return. The arguments of the format are
  already substituted at each call below.
\<close>

definition loginfof :: "string \<Rightarrow> 'e Github \<Rightarrow> 'e Github" where
  "loginfof str g = g\<lparr>logged := logged g @ [''github-info: '' @ str @ [CHR 0x0A]]\<rparr>"

definition logwarnf :: "string \<Rightarrow> 'e Github \<Rightarrow> 'e Github" where
  "logwarnf str g = g\<lparr>logged := logged g @ [''github-warn: '' @ str @ [CHR 0x0A]]\<rparr>"

definition logcritf :: "string \<Rightarrow> 'e Github \<Rightarrow> 'e Github" where
  "logcritf str g = g\<lparr>logged := logged g @ [''github-crit: '' @ str @ [CHR 0x0A]]\<rparr>"

subsection \<open>OAuth session: handleGithubAuth, getOauthConfig, setClient\<close>

definition getOauthConfig :: "'e Github \<Rightarrow> oauth2Config" where
  "getOauthConfig g =
     \<lparr>o2ClientID = ClientID (globalConfig g),
      o2ClientSecret = ClientSecret (globalConfig g),
      Scopes = [''repo'']\<rparr>"

definition setClient :: "oauth2Token \<Rightarrow> 'e Github \<Rightarrow> 'e Github" where
  "setClient token g =
     g\<lparr>client := Some \<lparr>tokenSourceConfig = getOauthConfig g, tokenSourceToken = token\<rparr>,
       broadcasts := broadcasts g + 1\<rparr>"

text \<open>
  Modelled from the spec: \<^verbatim>\<open>core.StoreCache\<close> is not in the given source; it persists
  a value under a cache key.
\<close>

definition StoreCache :: "string \<Rightarrow> string \<Rightarrow> 'e Github \<Rightarrow> 'e Github" where
  "StoreCache k v g = g\<lparr>cache := (cache g)(k \<mapsto> v)\<rparr>"

text \<open>The result is the body written to the response and the new state.\<close>

definition handleGithubAuth :: "env \<Rightarrow> string \<Rightarrow> string \<Rightarrow> 'e Github \<Rightarrow> string \<times> 'e Github" where
  "handleGithubAuth w state code g =
     (if state \<noteq> oauth2State w
      then (''OAuth2 state was incorrect, something bad happened between Github and us'', g)
      else
        (case Exchange w (getOauthConfig g) code of
           Inl err \<Rightarrow>
             (''Error exchanging OAuth code, something bad happened between Github and us: '' @ err, g)
         | Inr token \<Rightarrow>
             (''Thanks! you can close this tab now.'',
              setClient token (StoreCache ''github:token'' (AccessToken token) g))))"

subsection \<open>Repository registrar: setupHooks\<close>

definition hookEvents :: "string list" where
  "hookEvents =
     [''pull_request'', ''delete'', ''issue_comment'', ''pull_request_review'',
      ''pull_request_review_event'', ''push'', ''status'']"

definition hookFor :: "env \<Rightarrow> 'e githubApp \<Rightarrow> Hook" where
  "hookFor w appConfig =
     \<lparr>HookName = ''web'', Active = True,
      HookConfig =
        [''url'' \<mapsto> GetHTTPServerURL w @ ''/cb/github/hook/'' @ AppName (app appConfig),
         ''content_type'' \<mapsto> ''json''],
      Events = hookEvents\<rparr>"

definition setupHooks :: "env \<Rightarrow> 'e githubApp \<Rightarrow> 'e Github \<Rightarrow> outcome \<times> 'e Github" where
  "setupHooks w appConfig g =
     (let cfg = config appConfig in
      case client g of
        None \<Rightarrow> (Panicked, g)
      | Some c \<Rightarrow>
          (case RepositoriesGet w (cfgOwner cfg) (cfgRepo cfg) of
             Some err \<Rightarrow>
               (Returned,
                logwarnf (''('' @ AppName (app appConfig) @ '') Repository does not exist, owner=''
                          @ cfgOwner cfg @ '', repo='' @ cfgRepo cfg) g)
           | None \<Rightarrow>
               (let hook = hookFor w appConfig;
                    g1 = g\<lparr>calls := calls g @ [CreateHookCall (cfgOwner cfg) (cfgRepo cfg) hook]\<rparr>
                in case CreateHook w (cfgOwner cfg) (cfgRepo cfg) hook of
                     None \<Rightarrow> (Returned, g1)
                   | Some err \<Rightarrow>
                       if Contains err ''Hook already exists'' = False
                       then (Returned,
                             logwarnf (''Could not create webhook, owner='' @ cfgOwner cfg
                                       @ '', repo='' @ cfgRepo cfg @ '': '' @ err) g1)
                       else (Returned, g1))))"

subsection \<open>Build ledger: trackBuild, untrackBuild\<close>

text \<open>The loop of \<^verbatim>\<open>trackBuild\<close>: is a build with this token in the list?\<close>

fun tokenTracked :: "'e Build list \<Rightarrow> string \<Rightarrow> bool" where
  "tokenTracked [] tok = False"
| "tokenTracked (trackedBuild # rest) tok =
     (if Token trackedBuild = tok then True else tokenTracked rest tok)"

definition trackBuild :: "'e Build \<Rightarrow> 'e Github \<Rightarrow> 'e Github" where
  "trackBuild build g =
     (if tokenTracked (trackedBuilds g) (Token build) then g
      else g\<lparr>engine := RefBuild build (engine g),
             calls := calls g @ [RefCall (Token build)],
             trackedBuilds := trackedBuilds g @ [build]\<rparr>)"

text \<open>
  The loop of \<^verbatim>\<open>untrackBuild\<close>: the index of the first build with this token, counted
  from \<open>i\<close>, or \<open>-1\<close>.
\<close>

fun findBuildIndex :: "'e Build list \<Rightarrow> string \<Rightarrow> int \<Rightarrow> int" where
  "findBuildIndex [] tok i = - 1"
| "findBuildIndex (trackedBuild # rest) tok i =
     (if Token trackedBuild = tok then i else findBuildIndex rest tok (i + 1))"

definition untrackBuild :: "'e Build \<Rightarrow> 'e Github \<Rightarrow> 'e Github" where
  "untrackBuild build g =
     (let buildIndex = findBuildIndex (trackedBuilds g) (Token build) 0 in
      if buildIndex < 0 then g
      else
        (let tracked = trackedBuilds g ! nat buildIndex in
         g\<lparr>engine := UnrefBuild tracked (engine g),
           calls := calls g @ [UnrefCall (Token tracked)],
           trackedBuilds :=
             take (nat buildIndex) (trackedBuilds g) @ drop (nat buildIndex + 1) (trackedBuilds g)\<rparr>))"

subsection \<open>Pull-request tracker\<close>

text \<open>
  The fields read for the collaborator query, in the order of the source:
  \<^verbatim>\<open>*pull.Base.Repo.Owner.Login\<close>, \<^verbatim>\<open>*pull.Base.Repo.Name\<close>, \<^verbatim>\<open>*pull.User.Login\<close>.
  \<open>None\<close> when one of the pointers is \<^verbatim>\<open>nil\<close>.
\<close>

definition collaboratorArgs :: "PullRequest \<Rightarrow> (string \<times> string \<times> string) option" where
  "collaboratorArgs p =
     do {
       base \<leftarrow> Base p;
       baseRepo \<leftarrow> Repo base;
       baseOwner \<leftarrow> Owner baseRepo;
       owner \<leftarrow> Login baseOwner;
       repo \<leftarrow> Name baseRepo;
       pullUser \<leftarrow> PullUser p;
       user \<leftarrow> Login pullUser;
       Some (owner, repo, user)
     }"

text \<open>\<^verbatim>\<open>*pull.Head.SHA\<close> and \<^verbatim>\<open>*pull.Base.Ref\<close>.\<close>

definition headSHA :: "PullRequest \<Rightarrow> string option" where
  "headSHA p = do { head \<leftarrow> Head p; SHA head }"

definition baseRef :: "PullRequest \<Rightarrow> string option" where
  "baseRef p = do { base \<leftarrow> Base p; Ref base }"

text \<open>
  Lines 351 to 384 of the source: the build configuration of a pull request. Every
  pointer is dereferenced before the engine is called, so a \<^verbatim>\<open>nil\<close> among them is
  \<open>None\<close> here and a panic in \<open>submitBuild\<close>.
\<close>

definition buildConfigFor :: "PullRequest \<Rightarrow> string \<Rightarrow> BuildConfig option" where
  "buildConfigFor p pullID =
     do {
       head \<leftarrow> Head p;
       headBranch \<leftarrow> Ref head;
       headRepoP \<leftarrow> Repo head;
       headCloneURL \<leftarrow> SSHURL headRepoP;
       headCommit \<leftarrow> SHA head;
       headOwnerP \<leftarrow> Owner headRepoP;
       headOwner \<leftarrow> Login headOwnerP;
       headRepo \<leftarrow> Name headRepoP;
       base \<leftarrow> Base p;
       baseBranch \<leftarrow> Ref base;
       baseRepoP \<leftarrow> Repo base;
       baseCloneURL \<leftarrow> SSHURL baseRepoP;
       baseOwnerP \<leftarrow> Owner baseRepoP;
       baseOwner \<leftarrow> Login baseOwnerP;
       baseRepo \<leftarrow> Name baseRepoP;
       baseCommit \<leftarrow> SHA base;
       title \<leftarrow> Title p;
       url \<leftarrow> HTMLURL p;
       number \<leftarrow> Number p;
       Some
         (SetMetadata ''github:BaseRepo'' baseRepo
         (SetMetadata ''github:BaseOwner'' baseOwner
         (SetMetadata ''github:BaseHash'' baseCommit
         (SetMetadata ''github:HeadRepo'' headRepo
         (SetMetadata ''github:HeadOwner'' headOwner
         (SetMetadata ''github:HeadHash'' headCommit
         (SetMetadata ''github:PullNumber'' (Itoa number)
         (SetMetadata ''github:PullRequestID'' pullID
         (SetMetadata ''github:BuildType'' ''pullrequest''
           (NewBuildConfig
              \<lparr>bcTitle := title, URL := url, HeadRepo := headCloneURL,
               HeadBranch := headBranch, HeadHash := headCommit,
               BaseRepo := baseCloneURL, BaseBranch := baseBranch, BaseHash := [],
               Group := pullID\<rparr>))))))))))
     }"

text \<open>
  Lines 351 to 400: build the configuration, submit it, look the new build up and record
  its token in the entry \<open>status\<close>.
\<close>

definition submitBuild ::
  "'e githubApp \<Rightarrow> PullRequest \<Rightarrow> int \<Rightarrow> pullRequestStatus \<Rightarrow> 'e Github \<Rightarrow> outcome \<times> 'e Github" where
  "submitBuild a p pid status g =
     (let pullID = Itoa pid in
      case buildConfigFor p pullID of
        None \<Rightarrow> (Panicked, g)
      | Some buildConfig \<Rightarrow>
          (case NewBuild (app a) (engine g) (Group buildConfig) buildConfig of
             ((buildToken, err), e') \<Rightarrow>
               (let g1 = g\<lparr>engine := e',
                           calls := calls g @ [NewBuildCall (Group buildConfig) buildConfig]\<rparr>
                in if err \<noteq> None
                   then (Returned, logcritf (''Couldn't start build for '' @ Itoa pid) g1)
                   else
                     (case GetBuild (app a) (engine g1) buildToken of
                        (build, err2) \<Rightarrow>
                          if err2 \<noteq> None \<or> build = None
                          then (Returned, logcritf (''Couldn't get build for '' @ Itoa pid) g1)
                          else
                            (Returned,
                             loginfof (''started build: '' @ buildToken)
                               (g1\<lparr>trackedPullRequests :=
                                     (trackedPullRequests g1)
                                       (pullID \<mapsto> status\<lparr>currentBuild := buildToken\<rparr>)\<rparr>))))))"

text \<open>
  Lines 332 to 336: the entry of the pull request, created with an empty token when the
  identifier is not tracked.
\<close>

definition lookupStatus ::
  "PullRequest \<Rightarrow> string \<Rightarrow> 'e Github \<Rightarrow> pullRequestStatus \<times> 'e Github" where
  "lookupStatus p pullID g =
     (case trackedPullRequests g pullID of
        Some status \<Rightarrow> (status, g)
      | None \<Rightarrow>
          (let status = \<lparr>pull = p, currentBuild = [], mergeOnPass = False\<rparr>
           in (status, g\<lparr>trackedPullRequests := (trackedPullRequests g)(pullID \<mapsto> status)\<rparr>)))"

definition buildPullRequest ::
  "'e githubApp \<Rightarrow> PullRequest \<Rightarrow> 'e Github \<Rightarrow> outcome \<times> 'e Github" where
  "buildPullRequest a p g =
     (case ID p of
        None \<Rightarrow> (Panicked, g)
      | Some pid \<Rightarrow>
          (let pullID = Itoa pid in
           case lookupStatus p pullID (loginfof (''Building pull request: '' @ pullID) g) of
             (status, g1) \<Rightarrow>
               (case fst (GetBuild (app a) (engine g1) (currentBuild status)) of
                  None \<Rightarrow> submitBuild a p pid status g1
                | Some build \<Rightarrow>
                    (case headSHA p of
                       None \<Rightarrow> (Panicked, g1)
                     | Some sha \<Rightarrow>
                         if GetMetadata (Config build) ''github:HeadHash'' = sha
                         then (Returned, logwarnf ''Already building/built this commit'' g1)
                         else if CancelOnNewCommit (config a)
                         then submitBuild a p pid status
                                (g1\<lparr>engine := Stop build (engine g1),
                                    calls := calls g1 @ [StopCall (Token build)]\<rparr>)
                         else submitBuild a p pid status g1))))"

text \<open>
  The loop over \<^verbatim>\<open>app.config.IgnoredBranches\<close>: every iteration dereferences
  \<^verbatim>\<open>pull.Base.Ref\<close>.
\<close>

datatype ignored = IsIgnored | NotIgnored | RefIsNil

fun checkIgnored :: "string list \<Rightarrow> string option \<Rightarrow> ignored" where
  "checkIgnored [] r = NotIgnored"
| "checkIgnored (branchIgnore # rest) None = RefIsNil"
| "checkIgnored (branchIgnore # rest) (Some b) =
     (if branchIgnore = b then IsIgnored else checkIgnored rest (Some b))"

definition trackPullRequest ::
  "env \<Rightarrow> 'e githubApp \<Rightarrow> PullRequestEvent \<Rightarrow> 'e Github \<Rightarrow> outcome \<times> 'e Github" where
  "trackPullRequest w a event g =
     (case EventPullRequest event of
        None \<Rightarrow> (Returned, logcritf ''pull request is nil'' g)
      | Some p \<Rightarrow>
          (case ID p of
             None \<Rightarrow> (Panicked, g)
           | Some pid \<Rightarrow>
               (let pullID = Itoa pid in
                case collaboratorArgs p of
                  None \<Rightarrow> (Panicked, g)
                | Some (owner, repo, user) \<Rightarrow>
                    (case client g of
                       None \<Rightarrow> (Panicked, g)
                     | Some c \<Rightarrow>
                         (case IsCollaborator w owner repo user of
                            (isCollaborator, Some err) \<Rightarrow>
                              (Returned,
                               logcritf (''Couldn't check collaborator status on '' @ pullID
                                         @ '': '' @ err) g)
                          | (isCollaborator, None) \<Rightarrow>
                              if isCollaborator = False
                              then (Returned,
                                    logwarnf (''Ignoring pull request '' @ pullID
                                              @ '', non collaborator: '' @ user) g)
                              else
                                (case checkIgnored (IgnoredBranches (config a)) (baseRef p) of
                                   RefIsNil \<Rightarrow> (Panicked, g)
                                 | IsIgnored \<Rightarrow>
                                     (Returned,
                                      logwarnf (''Ignoring pull request '' @ pullID
                                                @ '', is an ignored branch'') g)
                                 | NotIgnored \<Rightarrow>
                                     buildPullRequest a p
                                       (g\<lparr>trackedPullRequests :=
                                            (trackedPullRequests g)
                                              (pullID \<mapsto>
                                                 \<lparr>pull = p, currentBuild = [],
                                                  mergeOnPass = False\<rparr>)\<rparr>)))))))"

definition updatePullRequest ::
  "env \<Rightarrow> 'e githubApp \<Rightarrow> PullRequestEvent \<Rightarrow> 'e Github \<Rightarrow> outcome \<times> 'e Github" where
  "updatePullRequest w a event g =
     (case EventPullRequest event of
        None \<Rightarrow> (Panicked, g)
      | Some p \<Rightarrow>
          (case ID p of
             None \<Rightarrow> (Panicked, g)
           | Some pid \<Rightarrow>
               (let pullID = Itoa pid in
                case trackedPullRequests g pullID of
                  None \<Rightarrow>
                    trackPullRequest w a event
                      (logwarnf (''event on unknown/ignored pull request: '' @ pullID) g)
                | Some st \<Rightarrow> buildPullRequest a p g)))"

definition closedPullRequest ::
  "'e githubApp \<Rightarrow> PullRequestEvent \<Rightarrow> 'e Github \<Rightarrow> outcome \<times> 'e Github" where
  "closedPullRequest a event g =
     (case EventPullRequest event of
        None \<Rightarrow> (Panicked, g)
      | Some p \<Rightarrow>
          (case ID p of
             None \<Rightarrow> (Panicked, g)
           | Some pid \<Rightarrow>
               (let pullID = Itoa pid in
                case trackedPullRequests g pullID of
                  None \<Rightarrow> (Returned, g)
                | Some status \<Rightarrow>
                    (let g1 =
                       (case fst (GetBuild (app a) (engine g) (currentBuild status)) of
                          None \<Rightarrow> g
                        | Some build \<Rightarrow>
                            if CancelOnNewCommit (config a)
                            then g\<lparr>engine := Stop build (engine g),
                                   calls := calls g @ [StopCall (Token build)]\<rparr>
                            else g)
                     in (Returned,
                         g1\<lparr>trackedPullRequests := (trackedPullRequests g1)(pullID := None)\<rparr>)))))"

section \<open>Sample data\<close>

text \<open>
  A small engine, used where a statement is evaluated on a concrete input: its state is the
  list of the builds submitted so far; a submission is accepted and named after its head
  commit, and a token resolves to the build submitted under it.
\<close>

type_synonym sampleEngine = "(string \<times> BuildConfig) list"

definition sampleBuild :: "string \<Rightarrow> BuildConfig \<Rightarrow> sampleEngine Build" where
  "sampleBuild tok cfg =
     \<lparr>Token = tok, Config = cfg, Stop = (\<lambda>e. e), RefBuild = (\<lambda>e. e), UnrefBuild = (\<lambda>e. e)\<rparr>"

definition sampleGetBuild :: "sampleEngine \<Rightarrow> string \<Rightarrow> sampleEngine Build option \<times> string option" where
  "sampleGetBuild e tok =
     (case map_of e tok of
        None \<Rightarrow> (None, Some ''no such build'')
      | Some cfg \<Rightarrow> (Some (sampleBuild tok cfg), None))"

definition sampleNewBuild ::
  "sampleEngine \<Rightarrow> string \<Rightarrow> BuildConfig \<Rightarrow> (string \<times> string option) \<times> sampleEngine" where
  "sampleNewBuild e grp cfg = ((''build-'' @ HeadHash cfg, None), (''build-'' @ HeadHash cfg, cfg) # e)"

definition sampleApp :: "sampleEngine App" where
  "sampleApp = \<lparr>AppName = ''widget-ci'', GetBuild = sampleGetBuild, NewBuild = sampleNewBuild\<rparr>"

text \<open>The same engine when it refuses every submission.\<close>

definition refusingApp :: "sampleEngine App" where
  "refusingApp =
     \<lparr>AppName = ''widget-ci'', GetBuild = sampleGetBuild,
      NewBuild = (\<lambda>e grp cfg. (([], Some ''engine is down''), e))\<rparr>"

definition sampleConfig :: "bool \<Rightarrow> githubConfig" where
  "sampleConfig cancel =
     \<lparr>ClientID = ''id'', ClientSecret = ''secret'', cfgOwner = ''acme'', cfgRepo = ''widget'',
      IgnoredBranches = [''release''], PublicKey = ''ssh-rsa AAAA'', BuildBranches = [],
      CancelOnNewCommit = cancel, MergeOnPass = True, MergeOnPassAuthWords = []\<rparr>"

definition sampleGithubApp :: "bool \<Rightarrow> sampleEngine githubApp" where
  "sampleGithubApp cancel = \<lparr>app = sampleApp, config = sampleConfig cancel\<rparr>"

definition refusingGithubApp :: "sampleEngine githubApp" where
  "refusingGithubApp = \<lparr>app = refusingApp, config = sampleConfig True\<rparr>"



definition sampleRepository :: Repository where
  "sampleRepository =
     \<lparr>Owner = Some \<lparr>Login = Some ''acme''\<rparr>, Name = Some ''widget'',
      SSHURL = Some ''git@github.com:acme/widget.git''\<rparr>"

text \<open>Pull request 7 (number 42) of a given author, base branch and head commit.\<close>

definition samplePull :: "string \<Rightarrow> string \<Rightarrow> string \<Rightarrow> PullRequest" where
  "samplePull author base sha =
     \<lparr>ID = Some 7, Number = Some 42, Title = Some ''Fix the widget'',
      HTMLURL = Some ''https://github.com/acme/widget/pull/42'',
      PullUser = Some \<lparr>Login = Some author\<rparr>,
      Head = Some \<lparr>Ref = Some ''fix'', SHA = Some sha, Repo = Some sampleRepository\<rparr>,
      Base = Some \<lparr>Ref = Some base, SHA = Some ''000000'', Repo = Some sampleRepository\<rparr>\<rparr>"

definition sampleEvent :: "string \<Rightarrow> string \<Rightarrow> string \<Rightarrow> PullRequestEvent" where
  "sampleEvent author base sha = \<lparr>EventPullRequest = Some (samplePull author base sha)\<rparr>"

text \<open>
  The outside: \<open>alice\<close> is the only collaborator, the repository exists, the webhook is
  already there, and the token endpoint accepts the code \<open>good\<close>.
\<close>

definition sampleEnv :: env where
  "sampleEnv =
     \<lparr>oauth2State = ''1000123451700000000'',
      Exchange = (\<lambda>cfg code. if code = ''good'' then Inr \<lparr>AccessToken = ''gho_1''\<rparr>
                              else Inl ''bad verification code''),
      IsCollaborator = (\<lambda>owner repo user. (user = ''alice'', None)),
      RepositoriesGet = (\<lambda>owner repo. None),
      CreateHook = (\<lambda>owner repo hook. Some ''422 Hook already exists on this repository''),
      GetHTTPServerURL = ''http://ci.example.com''\<rparr>"

definition sampleClient :: Client where
  "sampleClient =
     \<lparr>tokenSourceConfig = \<lparr>o2ClientID = ''id'', o2ClientSecret = ''secret'', Scopes = [''repo'']\<rparr>,
      tokenSourceToken = \<lparr>AccessToken = ''gho_0''\<rparr>\<rparr>"

text \<open>The integration after start-up, with the given tracked pull requests and engine.\<close>

definition sampleGithub ::
  "(string \<rightharpoonup> pullRequestStatus) \<Rightarrow> sampleEngine \<Rightarrow> sampleEngine Github" where
  "sampleGithub tracked e =
     \<lparr>globalConfig = sampleConfig True, client = Some sampleClient,
      trackedPullRequests = tracked, trackedBuilds = [], engine = e, calls = [],
      logged = [], cache = Map.empty, broadcasts = 0\<rparr>"

text \<open>Counting the submissions among the calls.\<close>

fun isNewBuildCall :: "call \<Rightarrow> bool" where
  "isNewBuildCall (NewBuildCall grp cfg) = True"
| "isNewBuildCall c = False"

definition submissions :: "call list \<Rightarrow> nat" where
  "submissions cs = length (filter isNewBuildCall cs)"

text \<open>A ledger holding one build, and two builds to track or untrack.\<close>

definition ledgerBuildA :: "sampleEngine Build" where
  "ledgerBuildA = sampleBuild ''build-a'' NewBuildConfig"

definition ledgerBuildB :: "sampleEngine Build" where
  "ledgerBuildB = sampleBuild ''build-b'' NewBuildConfig"

definition ledgerGithub :: "sampleEngine Github" where
  "ledgerGithub = (sampleGithub Map.empty [])\<lparr>trackedBuilds := [ledgerBuildA]\<rparr>"

text \<open>The integration before the OAuth callback: no client yet.\<close>

definition bootGithub :: "sampleEngine Github" where
  "bootGithub = (sampleGithub Map.empty [])\<lparr>client := None\<rparr>"

text \<open>
  Pull request 7 tracked with the build of commit \<open>abc123\<close>, which the engine holds and
  whose metadata records that commit.
\<close>

definition builtConfig :: BuildConfig where
  "builtConfig = SetMetadata ''github:HeadHash'' ''abc123'' (NewBuildConfig\<lparr>HeadHash := ''abc123''\<rparr>)"

definition trackedSeven :: "string \<rightharpoonup> pullRequestStatus" where
  "trackedSeven =
     [''7'' \<mapsto> \<lparr>pull = samplePull ''alice'' ''master'' ''abc123'',
                currentBuild = ''build-abc123'', mergeOnPass = False\<rparr>]"

definition buildingGithub :: "sampleEngine Github" where
  "buildingGithub = sampleGithub trackedSeven [(''build-abc123'', builtConfig)]"

text \<open>The outside once \<open>alice\<close> is no longer a collaborator.\<close>

definition revokedEnv :: env where
  "revokedEnv = sampleEnv\<lparr>IsCollaborator := (\<lambda>owner repo user. (False, None))\<rparr>"

text \<open>The outside when the collaborator query fails.\<close>

definition failingEnv :: env where
  "failingEnv = sampleEnv\<lparr>IsCollaborator := (\<lambda>owner repo user. (False, Some ''502 Bad Gateway''))\<rparr>"

text \<open>The build configuration of the sample pull request.\<close>

definition sampleBuildConfig :: "string \<Rightarrow> string \<Rightarrow> BuildConfig" where
  "sampleBuildConfig base sha =
     \<lparr>bcTitle = ''Fix the widget'', URL = ''https://github.com/acme/widget/pull/42'',
      HeadRepo = ''git@github.com:acme/widget.git'', HeadBranch = ''fix'', HeadHash = sha,
      BaseRepo = ''git@github.com:acme/widget.git'', BaseBranch = base, BaseHash = [],
      Group = ''7'',
      Metadata =
        [''github:BuildType'' \<mapsto> ''pullrequest'', ''github:PullRequestID'' \<mapsto> ''7'',
         ''github:PullNumber'' \<mapsto> ''42'', ''github:HeadHash'' \<mapsto> sha,
         ''github:HeadOwner'' \<mapsto> ''acme'', ''github:HeadRepo'' \<mapsto> ''widget'',
         ''github:BaseHash'' \<mapsto> ''000000'', ''github:BaseOwner'' \<mapsto> ''acme'',
         ''github:BaseRepo'' \<mapsto> ''widget'']\<rparr>"

section \<open>Properties\<close>

subsection \<open>The loops of the build ledger\<close>

lemma tokenTracked_iff: "tokenTracked bs tok \<longleftrightarrow> tok \<in> Token ` set bs"
  by (induction bs) auto

lemma findBuildIndex_absent:
  "tok \<notin> Token ` set bs \<Longrightarrow> findBuildIndex bs tok i = - 1"
  by (induction bs arbitrary: i) auto

lemma findBuildIndex_present:
  "tok \<in> Token ` set bs \<Longrightarrow> 0 \<le> i \<Longrightarrow>
   i \<le> findBuildIndex bs tok i \<and> nat (findBuildIndex bs tok i - i) < length bs \<and>
   Token (bs ! nat (findBuildIndex bs tok i - i)) = tok"
proof (induction bs arbitrary: i)
  case Nil
  then show ?case by simp
next
  case (Cons b bs)
  show ?case
  proof (cases "Token b = tok")
    case True
    then show ?thesis by simp
  next
    case False
    with Cons.prems have mem: "tok \<in> Token ` set bs" by auto
    have nn: "0 \<le> i + 1" using Cons.prems by simp
    from Cons.IH [OF mem nn]
    have a: "i + 1 \<le> findBuildIndex bs tok (i + 1)"
      and b: "nat (findBuildIndex bs tok (i + 1) - (i + 1)) < length bs"
      and c: "Token (bs ! nat (findBuildIndex bs tok (i + 1) - (i + 1))) = tok"
      by auto
    have eq: "nat (findBuildIndex bs tok (i + 1) - i) = Suc (nat (findBuildIndex bs tok (i + 1) - (i + 1)))"
      using a by linarith
    show ?thesis using False a b c eq by simp
  qed
qed

lemma remove_nth_distinct:
  "distinct (map f xs) \<Longrightarrow> j < length xs \<Longrightarrow>
   take j xs @ drop (Suc j) xs = filter (\<lambda>x. f x \<noteq> f (xs ! j)) xs"
proof (induction xs arbitrary: j)
  case Nil
  then show ?case by simp
next
  case (Cons x xs)
  show ?case
  proof (cases j)
    case 0
    have "filter (\<lambda>y. f y \<noteq> f x) xs = xs"
      using Cons.prems(1) by (intro filter_True) (auto simp: image_iff)
    then show ?thesis using 0 by simp
  next
    case (Suc k)
    then have k: "k < length xs" using Cons.prems(2) by simp
    have d: "distinct (map f xs)" using Cons.prems(1) by simp
    have ne: "f x \<noteq> f (xs ! k)" using Cons.prems(1) k by auto
    show ?thesis using Suc Cons.IH [OF d k] ne by simp
  qed
qed

lemma distinct_map_filter_keep: "distinct (map f xs) \<Longrightarrow> distinct (map f (filter P xs))"
  by (induction xs) auto

subsection \<open>No operation but the ledger's own changes the ledger\<close>

lemma submitBuild_trackedBuilds:
  "trackedBuilds (snd (submitBuild a p pid st g)) = trackedBuilds g"
  by (auto simp: submitBuild_def Let_def logcritf_def loginfof_def split: option.splits prod.splits)

lemma buildPullRequest_trackedBuilds:
  "trackedBuilds (snd (buildPullRequest a p g)) = trackedBuilds g"
  by (auto simp: buildPullRequest_def lookupStatus_def Let_def submitBuild_trackedBuilds
      logwarnf_def loginfof_def split: option.splits prod.splits)

lemma trackPullRequest_trackedBuilds:
  "trackedBuilds (snd (trackPullRequest w a ev g)) = trackedBuilds g"
  by (auto simp: trackPullRequest_def Let_def buildPullRequest_trackedBuilds logwarnf_def
      logcritf_def split: option.splits prod.splits ignored.splits)

lemma updatePullRequest_trackedBuilds:
  "trackedBuilds (snd (updatePullRequest w a ev g)) = trackedBuilds g"
  by (auto simp: updatePullRequest_def Let_def buildPullRequest_trackedBuilds
      trackPullRequest_trackedBuilds logwarnf_def split: option.splits)

lemma closedPullRequest_trackedBuilds:
  "trackedBuilds (snd (closedPullRequest a ev g)) = trackedBuilds g"
  by (auto simp: closedPullRequest_def Let_def split: option.splits)

lemma handleGithubAuth_trackedBuilds:
  "trackedBuilds (snd (handleGithubAuth w st code g)) = trackedBuilds g"
  by (auto simp: handleGithubAuth_def setClient_def StoreCache_def split: sum.splits)

lemma setupHooks_trackedBuilds:
  "trackedBuilds (snd (setupHooks w a g)) = trackedBuilds g"
  by (auto simp: setupHooks_def Let_def logwarnf_def split: option.splits)

lemma untrackBuild_present:
  assumes d: "distinct (map Token (trackedBuilds g))"
    and m: "Token b \<in> Token ` set (trackedBuilds g)"
  shows "untrackBuild b g =
           g\<lparr>engine := UnrefBuild (trackedBuilds g ! nat (findBuildIndex (trackedBuilds g) (Token b) 0)) (engine g),
             calls := calls g @ [UnrefCall (Token b)],
             trackedBuilds := filter (\<lambda>t. Token t \<noteq> Token b) (trackedBuilds g)\<rparr>"
proof -
  let ?j = "findBuildIndex (trackedBuilds g) (Token b) 0"
  from findBuildIndex_present [OF m, of 0]
  have a: "0 \<le> ?j" and l: "nat ?j < length (trackedBuilds g)"
    and t: "Token (trackedBuilds g ! nat ?j) = Token b" by auto
  from remove_nth_distinct [OF d l] t
  have "take (nat ?j) (trackedBuilds g) @ drop (Suc (nat ?j)) (trackedBuilds g)
        = filter (\<lambda>x. Token x \<noteq> Token b) (trackedBuilds g)" by simp
  then show ?thesis using a t by (simp add: untrackBuild_def Let_def)
qed

subsection \<open>The build configuration and the paths of submitBuild\<close>

lemma buildConfigFor_Group: "buildConfigFor p pullID = Some cfg \<Longrightarrow> Group cfg = pullID"
  by (auto simp: buildConfigFor_def SetMetadata_def NewBuildConfig_def split: Option.bind_splits)

lemma buildConfigFor_HeadHash:
  "buildConfigFor p pullID = Some cfg \<Longrightarrow>
   headSHA p = Some (HeadHash cfg) \<and> GetMetadata cfg ''github:HeadHash'' = HeadHash cfg"
  by (auto simp: buildConfigFor_def headSHA_def SetMetadata_def GetMetadata_def NewBuildConfig_def
      split: Option.bind_splits)

lemma submitBuild_calls:
  "buildConfigFor p (Itoa pid) = Some cfg \<Longrightarrow>
   calls (snd (submitBuild a p pid st g)) = calls g @ [NewBuildCall (Itoa pid) cfg]"
  by (frule buildConfigFor_Group)
     (auto simp: submitBuild_def Let_def logcritf_def loginfof_def split: prod.splits)

lemma submitBuild_ok:
  assumes "buildConfigFor p (Itoa pid) = Some cfg"
    and "NewBuild (app a) (engine g) (Itoa pid) cfg = ((tok, None), e')"
    and "GetBuild (app a) e' tok = (Some b, None)"
  shows "submitBuild a p pid st g =
           (Returned,
            loginfof (''started build: '' @ tok)
              (g\<lparr>engine := e', calls := calls g @ [NewBuildCall (Itoa pid) cfg],
                 trackedPullRequests := (trackedPullRequests g)(Itoa pid \<mapsto> st\<lparr>currentBuild := tok\<rparr>)\<rparr>))"
  using assms buildConfigFor_Group [OF assms(1)]
  by (simp add: submitBuild_def Let_def)

lemma submitBuild_refused:
  assumes "buildConfigFor p (Itoa pid) = Some cfg"
    and "NewBuild (app a) (engine g) (Itoa pid) cfg = ((tok, Some err), e')"
  shows "submitBuild a p pid st g =
           (Returned,
            logcritf (''Couldn't start build for '' @ Itoa pid)
              (g\<lparr>engine := e', calls := calls g @ [NewBuildCall (Itoa pid) cfg]\<rparr>))"
  using assms buildConfigFor_Group [OF assms(1)]
  by (simp add: submitBuild_def Let_def)

lemma submitBuild_unresolved:
  assumes "buildConfigFor p (Itoa pid) = Some cfg"
    and "NewBuild (app a) (engine g) (Itoa pid) cfg = ((tok, None), e')"
    and "GetBuild (app a) e' tok = (b, err)" and "err \<noteq> None \<or> b = None"
  shows "submitBuild a p pid st g =
           (Returned,
            logcritf (''Couldn't get build for '' @ Itoa pid)
              (g\<lparr>engine := e', calls := calls g @ [NewBuildCall (Itoa pid) cfg]\<rparr>))"
  using assms buildConfigFor_Group [OF assms(1)]
  by (auto simp add: submitBuild_def Let_def)

subsection \<open>The paths of buildPullRequest\<close>

lemma lookupStatus_tracked:
  "trackedPullRequests g k = Some st \<Longrightarrow> lookupStatus p k (loginfof s g) = (st, loginfof s g)"
  by (simp add: lookupStatus_def loginfof_def)

lemma lookupStatus_props:
  assumes "lookupStatus p k g = (st, g1)"
  shows "trackedPullRequests g1 k = Some st" and "engine g1 = engine g" and "calls g1 = calls g"
    and "trackedPullRequests g1 = (trackedPullRequests g)(k \<mapsto> st)"
    and "trackedPullRequests g k = None \<Longrightarrow> st = \<lparr>pull = p, currentBuild = [], mergeOnPass = False\<rparr>"
    and "\<And>st0. trackedPullRequests g k = Some st0 \<Longrightarrow> st = st0"
  using assms by (auto simp: lookupStatus_def Let_def split: option.splits)


lemma buildPullRequest_no_build:
  assumes "ID p = Some pid"
    and "lookupStatus p (Itoa pid) (loginfof (''Building pull request: '' @ Itoa pid) g) = (st, g1)"
    and "fst (GetBuild (app a) (engine g) (currentBuild st)) = None"
  shows "buildPullRequest a p g = submitBuild a p pid st g1"
  using assms lookupStatus_props(2) [OF assms(2)]
  by (simp add: buildPullRequest_def Let_def loginfof_def)

lemma buildPullRequest_superseded:
  assumes "ID p = Some pid"
    and "lookupStatus p (Itoa pid) (loginfof (''Building pull request: '' @ Itoa pid) g) = (st, g1)"
    and "fst (GetBuild (app a) (engine g) (currentBuild st)) = Some b"
    and "headSHA p = Some sha" and "GetMetadata (Config b) ''github:HeadHash'' \<noteq> sha"
  shows "buildPullRequest a p g =
           submitBuild a p pid st
             (if CancelOnNewCommit (config a)
              then g1\<lparr>engine := Stop b (engine g1), calls := calls g1 @ [StopCall (Token b)]\<rparr>
              else g1)"
  using assms lookupStatus_props(2) [OF assms(2)]
  by (simp add: buildPullRequest_def Let_def loginfof_def)

subsection \<open>strings.Contains finds a substring\<close>

lemma hasPrefix_iff: "hasPrefix s sub \<longleftrightarrow> (\<exists>suf. s = sub @ suf)"
  by (induction s sub rule: hasPrefix.induct) auto

lemma Contains_iff: "Contains s sub \<longleftrightarrow> (\<exists>pre suf. s = pre @ sub @ suf)"
proof (induction s)
  case Nil
  then show ?case by (cases sub) auto
next
  case (Cons c cs)
  show ?case
  proof
    assume "Contains (c # cs) sub"
    then consider "hasPrefix (c # cs) sub" | "Contains cs sub" by auto
    then show "\<exists>pre suf. c # cs = pre @ sub @ suf"
    proof cases
      case 1
      then obtain suf where "c # cs = sub @ suf" using hasPrefix_iff by blast
      then have "c # cs = [] @ sub @ suf" by simp
      then show ?thesis by blast
    next
      case 2
      then obtain pre suf where "cs = pre @ sub @ suf" using Cons.IH by blast
      then have "c # cs = (c # pre) @ sub @ suf" by simp
      then show ?thesis by blast
    qed
  next
    assume "\<exists>pre suf. c # cs = pre @ sub @ suf"
    then obtain pre suf where e: "c # cs = pre @ sub @ suf" by blast
    show "Contains (c # cs) sub"
    proof (cases pre)
      case Nil
      then have "hasPrefix (c # cs) sub" using e hasPrefix_iff by auto
      then show ?thesis by simp
    next
      case (Cons d ds)
      then have "cs = ds @ sub @ suf" using e by simp
      then have "Contains cs sub" using Cons.IH by blast
      then show ?thesis by simp
    qed
  qed
qed

subsection \<open>What the tracker writes into trackedPullRequests\<close>

lemma submitBuild_entry:
  "trackedPullRequests (snd (submitBuild a p pid st g)) = trackedPullRequests g
   \<or> (\<exists>tok. trackedPullRequests (snd (submitBuild a p pid st g))
              = (trackedPullRequests g)(Itoa pid \<mapsto> st\<lparr>currentBuild := tok\<rparr>))"
  by (auto simp: submitBuild_def Let_def logcritf_def loginfof_def split: option.splits prod.splits)

lemma buildPullRequest_entry:
  assumes "ID p = Some pid"
    and "lookupStatus p (Itoa pid) (loginfof (''Building pull request: '' @ Itoa pid) g) = (st, g1)"
  shows "trackedPullRequests (snd (buildPullRequest a p g)) = (trackedPullRequests g)(Itoa pid \<mapsto> st)
   \<or> (\<exists>tok. trackedPullRequests (snd (buildPullRequest a p g))
              = (trackedPullRequests g)(Itoa pid \<mapsto> st\<lparr>currentBuild := tok\<rparr>))"
proof -
  have t1: "trackedPullRequests g1 = (trackedPullRequests g)(Itoa pid \<mapsto> st)"
    using lookupStatus_props(4) [OF assms(2)] by (simp add: loginfof_def)
  have sub: "\<And>g2. trackedPullRequests g2 = trackedPullRequests g1 \<Longrightarrow>
      trackedPullRequests (snd (submitBuild a p pid st g2)) = (trackedPullRequests g)(Itoa pid \<mapsto> st)
      \<or> (\<exists>tok. trackedPullRequests (snd (submitBuild a p pid st g2))
              = (trackedPullRequests g)(Itoa pid \<mapsto> st\<lparr>currentBuild := tok\<rparr>))"
  proof -
    fix g2 :: "'a Github"
    assume e: "trackedPullRequests g2 = trackedPullRequests g1"
    from submitBuild_entry [of a p pid st g2] show "?thesis g2"
      using e t1 by auto
  qed
  show ?thesis
    using assms(1,2) t1 sub [of g1]
      sub [of "g1\<lparr>engine := Stop b (engine g1), calls := calls g1 @ [StopCall (Token b)]\<rparr>" for b]
    by (auto simp: buildPullRequest_def Let_def logwarnf_def split: option.splits)
qed

lemma buildPullRequest_no_ID:
  "ID p = None \<Longrightarrow> buildPullRequest a p g = (Panicked, g)"
  by (simp add: buildPullRequest_def)

subsection \<open>The paths of trackPullRequest and updatePullRequest\<close>

lemma checkIgnored_Some:
  "checkIgnored bs (Some b) = (if b \<in> set bs then IsIgnored else NotIgnored)"
  by (induction bs) auto

lemma checkIgnored_None: "checkIgnored bs None = (if bs = [] then NotIgnored else RefIsNil)"
  by (cases bs) auto

lemma trackPullRequest_admitted:
  assumes "EventPullRequest ev = Some p" and "ID p = Some pid"
    and "collaboratorArgs p = Some (owner, repo, user)" and "client g = Some c"
    and "IsCollaborator w owner repo user = (True, None)"
    and "checkIgnored (IgnoredBranches (config a)) (baseRef p) = NotIgnored"
  shows "trackPullRequest w a ev g =
           buildPullRequest a p
             (g\<lparr>trackedPullRequests :=
                  (trackedPullRequests g)
                    (Itoa pid \<mapsto> \<lparr>pull = p, currentBuild = [], mergeOnPass = False\<rparr>)\<rparr>)"
  using assms by (simp add: trackPullRequest_def Let_def)

lemma trackPullRequest_cases:
  "(trackedPullRequests (snd (trackPullRequest w a ev g)) = trackedPullRequests g
      \<and> calls (snd (trackPullRequest w a ev g)) = calls g
      \<and> engine (snd (trackPullRequest w a ev g)) = engine g)
   \<or> (\<exists>p pid owner repo user c.
         EventPullRequest ev = Some p \<and> ID p = Some pid
       \<and> collaboratorArgs p = Some (owner, repo, user) \<and> client g = Some c
       \<and> IsCollaborator w owner repo user = (True, None)
       \<and> checkIgnored (IgnoredBranches (config a)) (baseRef p) = NotIgnored)"
  by (auto simp: trackPullRequest_def Let_def logcritf_def logwarnf_def
      split: option.splits prod.splits ignored.splits)

lemma updatePullRequest_tracked:
  assumes "EventPullRequest ev = Some p" and "ID p = Some pid"
    and "trackedPullRequests g (Itoa pid) = Some st"
  shows "updatePullRequest w a ev g = buildPullRequest a p g"
  using assms by (simp add: updatePullRequest_def Let_def)

lemma updatePullRequest_untracked:
  assumes "EventPullRequest ev = Some p" and "ID p = Some pid"
    and "trackedPullRequests g (Itoa pid) = None"
  shows "updatePullRequest w a ev g =
           trackPullRequest w a ev
             (logwarnf (''event on unknown/ignored pull request: '' @ Itoa pid) g)"
  using assms by (simp add: updatePullRequest_def Let_def)

lemma trackPullRequest_dropped:
  assumes "EventPullRequest ev = Some p"
    and "(\<exists>owner repo user. collaboratorArgs p = Some (owner, repo, user)
            \<and> (snd (IsCollaborator w owner repo user) \<noteq> None
               \<or> \<not> fst (IsCollaborator w owner repo user)))
         \<or> (\<exists>b. baseRef p = Some b \<and> b \<in> set (IgnoredBranches (config a)))"
  shows "trackedPullRequests (snd (trackPullRequest w a ev g)) = trackedPullRequests g
       \<and> calls (snd (trackPullRequest w a ev g)) = calls g
       \<and> engine (snd (trackPullRequest w a ev g)) = engine g"
proof -
  from trackPullRequest_cases [of w a ev g] show ?thesis
  proof
    assume "trackedPullRequests (snd (trackPullRequest w a ev g)) = trackedPullRequests g
      \<and> calls (snd (trackPullRequest w a ev g)) = calls g
      \<and> engine (snd (trackPullRequest w a ev g)) = engine g"
    then show ?thesis .
  next
    assume "\<exists>p pid owner repo user c.
         EventPullRequest ev = Some p \<and> ID p = Some pid
       \<and> collaboratorArgs p = Some (owner, repo, user) \<and> client g = Some c
       \<and> IsCollaborator w owner repo user = (True, None)
       \<and> checkIgnored (IgnoredBranches (config a)) (baseRef p) = NotIgnored"
    then obtain owner repo user where
      ca: "collaboratorArgs p = Some (owner, repo, user)"
      and ic: "IsCollaborator w owner repo user = (True, None)"
      and ci: "checkIgnored (IgnoredBranches (config a)) (baseRef p) = NotIgnored"
      using assms(1) by auto
    from assms(2) ca ic ci have False
      by (auto simp: checkIgnored_Some)
    then show ?thesis ..
  qed
qed

subsection \<open>Logging changes nothing but the log\<close>

lemma loginfof_fields [simp]:
  "calls (loginfof s g) = calls g" "engine (loginfof s g) = engine g"
  "trackedPullRequests (loginfof s g) = trackedPullRequests g" "client (loginfof s g) = client g"
  "trackedBuilds (loginfof s g) = trackedBuilds g"
  by (simp_all add: loginfof_def)

lemma logwarnf_fields [simp]:
  "calls (logwarnf s g) = calls g" "engine (logwarnf s g) = engine g"
  "trackedPullRequests (logwarnf s g) = trackedPullRequests g" "client (logwarnf s g) = client g"
  "trackedBuilds (logwarnf s g) = trackedBuilds g"
  by (simp_all add: logwarnf_def)

lemma logcritf_fields [simp]:
  "calls (logcritf s g) = calls g" "engine (logcritf s g) = engine g"
  "trackedPullRequests (logcritf s g) = trackedPullRequests g" "client (logcritf s g) = client g"
  "trackedBuilds (logcritf s g) = trackedBuilds g"
  by (simp_all add: logcritf_def)

subsection \<open>The calls of a superseding run\<close>

lemma updatePullRequest_new_commit:
  assumes ev: "EventPullRequest ev = Some p" and pid: "ID p = Some pid"
    and tr: "trackedPullRequests g (Itoa pid) = Some st"
    and live: "fst (GetBuild (app a) (engine g) (currentBuild st)) = Some b"
    and cfg: "buildConfigFor p (Itoa pid) = Some cfg"
    and new: "GetMetadata (Config b) ''github:HeadHash'' \<noteq> HeadHash cfg"
  shows "calls (snd (updatePullRequest w a ev g))
           = calls g @ (if CancelOnNewCommit (config a) then [StopCall (Token b)] else [])
             @ [NewBuildCall (Itoa pid) cfg]"
proof -
  let ?g1 = "loginfof (''Building pull request: '' @ Itoa pid) g"
  have sha: "headSHA p = Some (HeadHash cfg)" using buildConfigFor_HeadHash [OF cfg] by simp
  have up: "updatePullRequest w a ev g = buildPullRequest a p g"
    by (rule updatePullRequest_tracked [OF ev pid tr])
  have lk: "lookupStatus p (Itoa pid) ?g1 = (st, ?g1)"
    by (rule lookupStatus_tracked [OF tr])
  show ?thesis
    unfolding up buildPullRequest_superseded [OF pid lk live sha new]
    by (simp add: submitBuild_calls [OF cfg])
qed

subsection \<open>The entry that an operation leaves\<close>

lemma buildPullRequest_writes:
  assumes "ID p = Some pid"
  shows "\<exists>st. st = (case trackedPullRequests g (Itoa pid) of
                     Some s \<Rightarrow> s
                   | None \<Rightarrow> \<lparr>pull = p, currentBuild = [], mergeOnPass = False\<rparr>)
          \<and> (trackedPullRequests (snd (buildPullRequest a p g)) = (trackedPullRequests g)(Itoa pid \<mapsto> st)
             \<or> (\<exists>tok. trackedPullRequests (snd (buildPullRequest a p g))
                        = (trackedPullRequests g)(Itoa pid \<mapsto> st\<lparr>currentBuild := tok\<rparr>)))"
proof -
  obtain st g1 where
    lk: "lookupStatus p (Itoa pid) (loginfof (''Building pull request: '' @ Itoa pid) g) = (st, g1)"
    by (cases "lookupStatus p (Itoa pid) (loginfof (''Building pull request: '' @ Itoa pid) g)")
  have "st = (case trackedPullRequests g (Itoa pid) of
                     Some s \<Rightarrow> s
                   | None \<Rightarrow> \<lparr>pull = p, currentBuild = [], mergeOnPass = False\<rparr>)"
    using lookupStatus_props(5,6) [OF lk] by (auto split: option.splits)
  with buildPullRequest_entry [OF assms lk, of a] show ?thesis by blast
qed

lemma buildPullRequest_created:
  assumes "trackedPullRequests g k = None"
    and "trackedPullRequests (snd (buildPullRequest a p g)) k = Some st"
  shows "mergeOnPass st = False"
proof (cases "ID p")
  case None
  then show ?thesis using assms by (simp add: buildPullRequest_no_ID)
next
  case (Some pid)
  from buildPullRequest_writes [OF Some, of g a] assms show ?thesis
    by (cases "k = Itoa pid") (auto split: if_splits)
qed

lemma trackPullRequest_created:
  assumes "trackedPullRequests g k = None"
    and "trackedPullRequests (snd (trackPullRequest w a ev g)) k = Some st"
  shows "mergeOnPass st = False"
proof -
  from trackPullRequest_cases [of w a ev g] show ?thesis
  proof
    assume "trackedPullRequests (snd (trackPullRequest w a ev g)) = trackedPullRequests g
      \<and> calls (snd (trackPullRequest w a ev g)) = calls g
      \<and> engine (snd (trackPullRequest w a ev g)) = engine g"
    then show ?thesis using assms by simp
  next
    assume "\<exists>p pid owner repo user c.
         EventPullRequest ev = Some p \<and> ID p = Some pid
       \<and> collaboratorArgs p = Some (owner, repo, user) \<and> client g = Some c
       \<and> IsCollaborator w owner repo user = (True, None)
       \<and> checkIgnored (IgnoredBranches (config a)) (baseRef p) = NotIgnored"
    then obtain p pid owner repo user c where
      h: "EventPullRequest ev = Some p" "ID p = Some pid"
         "collaboratorArgs p = Some (owner, repo, user)" "client g = Some c"
         "IsCollaborator w owner repo user = (True, None)"
         "checkIgnored (IgnoredBranches (config a)) (baseRef p) = NotIgnored"
      by blast
    let ?fresh = "\<lparr>pull = p, currentBuild = [], mergeOnPass = False\<rparr>"
    let ?g = "g\<lparr>trackedPullRequests := (trackedPullRequests g)(Itoa pid \<mapsto> ?fresh)\<rparr>"
    have e: "trackPullRequest w a ev g = buildPullRequest a p ?g"
      by (rule trackPullRequest_admitted [OF h])
    from buildPullRequest_writes [OF h(2), of ?g a] assms show ?thesis
      unfolding e by (cases "k = Itoa pid") (auto split: if_splits)
  qed
qed

lemma updatePullRequest_created:
  assumes "trackedPullRequests g k = None"
    and "trackedPullRequests (snd (updatePullRequest w a ev g)) k = Some st"
  shows "mergeOnPass st = False"
proof (cases "EventPullRequest ev")
  case None
  then show ?thesis using assms by (simp add: updatePullRequest_def)
next
  case (Some p)
  show ?thesis
  proof (cases "ID p")
    case None
    then show ?thesis using assms Some by (simp add: updatePullRequest_def)
  next
    case pid: (Some pid)
    show ?thesis
    proof (cases "trackedPullRequests g (Itoa pid)")
      case None
      from assms show ?thesis
        unfolding updatePullRequest_untracked [OF Some pid None]
        using trackPullRequest_created
          [of "logwarnf (''event on unknown/ignored pull request: '' @ Itoa pid) g" k w a ev st]
        by simp
    next
      case tr: (Some st0)
      from assms show ?thesis
        unfolding updatePullRequest_tracked [OF Some pid tr]
        by (rule buildPullRequest_created)
    qed
  qed
qed

subsection \<open>An admitted event on the path of trackPullRequest\<close>

lemma trackPullRequest_submits:
  assumes ev: "EventPullRequest ev = Some p" and pid: "ID p = Some pid"
    and ca: "collaboratorArgs p = Some (owner, repo, user)" and cl: "client g = Some c"
    and ic: "IsCollaborator w owner repo user = (True, None)"
    and ci: "checkIgnored (IgnoredBranches (config a)) (baseRef p) = NotIgnored"
    and nb: "fst (GetBuild (app a) (engine g) []) = None"
  shows "trackPullRequest w a ev g =
           submitBuild a p pid \<lparr>pull = p, currentBuild = [], mergeOnPass = False\<rparr>
             (loginfof (''Building pull request: '' @ Itoa pid)
                (g\<lparr>trackedPullRequests :=
                     (trackedPullRequests g)
                       (Itoa pid \<mapsto> \<lparr>pull = p, currentBuild = [], mergeOnPass = False\<rparr>)\<rparr>))"
proof -
  let ?fresh = "\<lparr>pull = p, currentBuild = [], mergeOnPass = False\<rparr>"
  let ?g = "g\<lparr>trackedPullRequests := (trackedPullRequests g)(Itoa pid \<mapsto> ?fresh)\<rparr>"
  let ?g1 = "loginfof (''Building pull request: '' @ Itoa pid) ?g"
  have e: "trackPullRequest w a ev g = buildPullRequest a p ?g"
    by (rule trackPullRequest_admitted [OF ev pid ca cl ic ci])
  have tr: "trackedPullRequests ?g (Itoa pid) = Some ?fresh" by simp
  have lk: "lookupStatus p (Itoa pid) ?g1 = (?fresh, ?g1)"
    by (rule lookupStatus_tracked [OF tr])
  have nb': "fst (GetBuild (app a) (engine ?g) (currentBuild ?fresh)) = None"
    using nb by simp
  show ?thesis unfolding e by (rule buildPullRequest_no_build [OF pid lk nb'])
qed

lemma trackPullRequest_submits_ok:
  assumes ev: "EventPullRequest ev = Some p" and pid: "ID p = Some pid"
    and ca: "collaboratorArgs p = Some (owner, repo, user)" and cl: "client g = Some c"
    and ic: "IsCollaborator w owner repo user = (True, None)"
    and ci: "checkIgnored (IgnoredBranches (config a)) (baseRef p) = NotIgnored"
    and nb: "fst (GetBuild (app a) (engine g) []) = None"
    and cfg: "buildConfigFor p (Itoa pid) = Some cfg"
    and sub: "NewBuild (app a) (engine g) (Itoa pid) cfg = ((tok, None), e')"
    and res: "GetBuild (app a) e' tok = (Some b, None)"
  shows "trackedPullRequests (snd (trackPullRequest w a ev g))
           = (trackedPullRequests g)
               (Itoa pid \<mapsto> \<lparr>pull = p, currentBuild = tok, mergeOnPass = False\<rparr>)"
    and "calls (snd (trackPullRequest w a ev g)) = calls g @ [NewBuildCall (Itoa pid) cfg]"
    and "engine (snd (trackPullRequest w a ev g)) = e'"
proof -
  let ?fresh = "\<lparr>pull = p, currentBuild = [], mergeOnPass = False\<rparr>"
  let ?g1 = "loginfof (''Building pull request: '' @ Itoa pid)
               (g\<lparr>trackedPullRequests := (trackedPullRequests g)(Itoa pid \<mapsto> ?fresh)\<rparr>)"
  have sub': "NewBuild (app a) (engine ?g1) (Itoa pid) cfg = ((tok, None), e')"
    using sub by simp
  note R = submitBuild_ok [OF cfg sub' res, of ?fresh]
  note E = trackPullRequest_submits [OF ev pid ca cl ic ci nb]
  show "trackedPullRequests (snd (trackPullRequest w a ev g))
           = (trackedPullRequests g)
               (Itoa pid \<mapsto> \<lparr>pull = p, currentBuild = tok, mergeOnPass = False\<rparr>)"
    unfolding E R by simp
  show "calls (snd (trackPullRequest w a ev g)) = calls g @ [NewBuildCall (Itoa pid) cfg]"
    unfolding E R by simp
  show "engine (snd (trackPullRequest w a ev g)) = e'"
    unfolding E R by simp
qed

subsection \<open>Reaching the submission\<close>

lemma submissions_append [simp]:
  "submissions (cs @ ds) = submissions cs + submissions ds"
  by (simp add: submissions_def)

lemma submissions_single [simp]:
  "submissions [NewBuildCall grp cfg] = 1" "submissions [StopCall t] = 0" "submissions [] = 0"
  by (simp_all add: submissions_def)

lemma buildPullRequest_reaches_submit:
  assumes pid: "ID p = Some pid" and tr: "trackedPullRequests g (Itoa pid) = Some st"
    and cfg: "buildConfigFor p (Itoa pid) = Some cfg"
    and ns: "\<forall>b. fst (GetBuild (app a) (engine g) (currentBuild st)) = Some b
                \<longrightarrow> GetMetadata (Config b) ''github:HeadHash'' \<noteq> HeadHash cfg"
  shows "\<exists>gS. buildPullRequest a p g = submitBuild a p pid st gS
            \<and> trackedPullRequests gS = trackedPullRequests g
            \<and> submissions (calls gS) = submissions (calls g)
            \<and> engine gS =
                (case fst (GetBuild (app a) (engine g) (currentBuild st)) of
                   None \<Rightarrow> engine g
                 | Some b \<Rightarrow> if CancelOnNewCommit (config a) then Stop b (engine g) else engine g)"
proof -
  let ?g1 = "loginfof (''Building pull request: '' @ Itoa pid) g"
  have lk: "lookupStatus p (Itoa pid) ?g1 = (st, ?g1)" by (rule lookupStatus_tracked [OF tr])
  have sha: "headSHA p = Some (HeadHash cfg)" using buildConfigFor_HeadHash [OF cfg] by simp
  show ?thesis
  proof (cases "fst (GetBuild (app a) (engine g) (currentBuild st))")
    case None
    show ?thesis
      unfolding buildPullRequest_no_build [OF pid lk None] using None
      by (intro exI [of _ ?g1]) simp
  next
    case (Some b)
    with ns have new: "GetMetadata (Config b) ''github:HeadHash'' \<noteq> HeadHash cfg" by simp
    show ?thesis
      unfolding buildPullRequest_superseded [OF pid lk Some sha new] using Some
      by (intro exI [of _ "if CancelOnNewCommit (config a)
              then ?g1\<lparr>engine := Stop b (engine ?g1), calls := calls ?g1 @ [StopCall (Token b)]\<rparr>
              else ?g1"]) simp
  qed
qed

subsection \<open>After a submission that the engine accepts\<close>




subsection \<open>A submission that leaves no token\<close>




section \<open>The sample data, evaluated\<close>

lemma Itoa_7: "Itoa 7 = ''7''"
  by (simp add: Itoa_def utoa.simps digit_def)

lemma samplePull_ID: "ID (samplePull author base sha) = Some 7"
  by (simp add: samplePull_def)

lemma sampleGetBuild_built:
  "GetBuild (app (sampleGithubApp c)) (engine buildingGithub) ''build-abc123''
     = (Some (sampleBuild ''build-abc123'' builtConfig), None)"
  by (simp add: sampleGithubApp_def sampleApp_def sampleGetBuild_def buildingGithub_def
      sampleGithub_def)

lemma buildingGithub_tracked:
  "trackedPullRequests buildingGithub ''7''
     = Some \<lparr>pull = samplePull ''alice'' ''master'' ''abc123'',
              currentBuild = ''build-abc123'', mergeOnPass = False\<rparr>"
  by (simp add: buildingGithub_def sampleGithub_def trackedSeven_def)

lemma sampleHookAnswer:
  "Contains ''422 Hook already exists on this repository'' ''Hook already exists''"
  by simp

lemma Itoa_42: "Itoa 42 = ''42''"
  by (simp add: Itoa_def utoa.simps digit_def)

lemma sample_collaboratorArgs:
  "collaboratorArgs (samplePull author base sha) = Some (''acme'', ''widget'', author)"
  by (simp add: collaboratorArgs_def samplePull_def sampleRepository_def)

lemma sample_baseRef: "baseRef (samplePull author base sha) = Some base"
  by (simp add: baseRef_def samplePull_def)

lemma sample_headSHA: "headSHA (samplePull author base sha) = Some sha"
  by (simp add: headSHA_def samplePull_def)

lemma sample_buildConfigFor:
  "buildConfigFor (samplePull author base sha) (Itoa 7) = Some (sampleBuildConfig base sha)"
  by (simp add: buildConfigFor_def samplePull_def sampleRepository_def sampleBuildConfig_def
      SetMetadata_def NewBuildConfig_def Itoa_42 Itoa_7)

lemma sample_event: "EventPullRequest (sampleEvent author base sha) = Some (samplePull author base sha)"
  by (simp add: sampleEvent_def)

lemma sample_ignored: "IgnoredBranches (config (sampleGithubApp c)) = [''release'']"
  by (simp add: sampleGithubApp_def sampleConfig_def)

lemma sample_cancel: "CancelOnNewCommit (config (sampleGithubApp c)) = c"
  by (simp add: sampleGithubApp_def sampleConfig_def)

lemma builtConfig_HeadHash: "GetMetadata builtConfig ''github:HeadHash'' = ''abc123''"
  by (simp add: builtConfig_def GetMetadata_def SetMetadata_def)


lemma buildingGithub_fields:
  "calls buildingGithub = []" "engine buildingGithub = [(''build-abc123'', builtConfig)]"
  "client buildingGithub = Some sampleClient" "logged buildingGithub = []"
  by (simp_all add: buildingGithub_def sampleGithub_def)

lemma sampleGithub_fields:
  "calls (sampleGithub t e) = []" "engine (sampleGithub t e) = e"
  "client (sampleGithub t e) = Some sampleClient" "logged (sampleGithub t e) = []"
  "trackedPullRequests (sampleGithub t e) = t"
  by (simp_all add: sampleGithub_def)

lemma sample_GetBuild:
  "GetBuild (app (sampleGithubApp c)) e tok = sampleGetBuild e tok"
  by (simp add: sampleGithubApp_def sampleApp_def)

lemma sample_NewBuild:
  "NewBuild (app (sampleGithubApp c)) e grp cfg = sampleNewBuild e grp cfg"
  by (simp add: sampleGithubApp_def sampleApp_def)

lemma buildingGithub_live:
  "fst (GetBuild (app (sampleGithubApp c)) (engine buildingGithub) ''build-abc123'')
     = Some (sampleBuild ''build-abc123'' builtConfig)"
  by (simp add: sampleGetBuild_built)

lemma sample_admitted:
  "IsCollaborator sampleEnv ''acme'' ''widget'' ''alice'' = (True, None)"
  "checkIgnored (IgnoredBranches (config (sampleGithubApp c))) (baseRef (samplePull author ''master'' sha))
     = NotIgnored"
  by (simp_all add: sampleEnv_def sample_ignored sample_baseRef)

lemma sample_no_empty_token:
  "fst (GetBuild (app (sampleGithubApp c)) [] []) = None"
  "fst (GetBuild (app (sampleGithubApp c)) [(''build-abc123'', cfg)] []) = None"
  by (simp_all add: sample_GetBuild sampleGetBuild_def)

lemma sample_submission:
  "NewBuild (app (sampleGithubApp c)) e (Itoa 7) (sampleBuildConfig base sha)
     = ((''build-'' @ sha, None), (''build-'' @ sha, sampleBuildConfig base sha) # e)"
  "GetBuild (app (sampleGithubApp c)) ((''build-'' @ sha, sampleBuildConfig base sha) # e) (''build-'' @ sha)
     = (Some (sampleBuild (''build-'' @ sha) (sampleBuildConfig base sha)), None)"
  by (simp_all add: sample_NewBuild sample_GetBuild sampleNewBuild_def sampleGetBuild_def
      sampleBuildConfig_def)

lemma sample_opened:
  "trackedPullRequests
     (snd (trackPullRequest sampleEnv (sampleGithubApp c) (sampleEvent ''alice'' ''master'' sha)
             (sampleGithub Map.empty [])))
     = [''7'' \<mapsto> \<lparr>pull = samplePull ''alice'' ''master'' sha, currentBuild = ''build-'' @ sha,
                    mergeOnPass = False\<rparr>]"
  "calls
     (snd (trackPullRequest sampleEnv (sampleGithubApp c) (sampleEvent ''alice'' ''master'' sha)
             (sampleGithub Map.empty [])))
     = [NewBuildCall ''7'' (sampleBuildConfig ''master'' sha)]"
  "engine
     (snd (trackPullRequest sampleEnv (sampleGithubApp c) (sampleEvent ''alice'' ''master'' sha)
             (sampleGithub Map.empty [])))
     = [(''build-'' @ sha, sampleBuildConfig ''master'' sha)]"
proof -
  let ?g = "sampleGithub Map.empty []"
  have cl: "client ?g = Some sampleClient" by (simp add: sampleGithub_fields)
  have nb: "fst (GetBuild (app (sampleGithubApp c)) (engine ?g) []) = None"
    by (simp add: sampleGithub_fields sample_no_empty_token)
  have sub: "NewBuild (app (sampleGithubApp c)) (engine ?g) (Itoa 7) (sampleBuildConfig ''master'' sha)
     = ((''build-'' @ sha, None), [(''build-'' @ sha, sampleBuildConfig ''master'' sha)])"
    by (simp add: sampleGithub_fields sample_submission)
  note R = trackPullRequest_submits_ok [OF sample_event samplePull_ID sample_collaboratorArgs cl
      sample_admitted(1) sample_admitted(2) nb sample_buildConfigFor sub sample_submission(2)]
  show "trackedPullRequests
     (snd (trackPullRequest sampleEnv (sampleGithubApp c) (sampleEvent ''alice'' ''master'' sha) ?g))
     = [''7'' \<mapsto> \<lparr>pull = samplePull ''alice'' ''master'' sha, currentBuild = ''build-'' @ sha,
                    mergeOnPass = False\<rparr>]"
    using R(1) by (simp add: sampleGithub_fields Itoa_7)
  show "calls
     (snd (trackPullRequest sampleEnv (sampleGithubApp c) (sampleEvent ''alice'' ''master'' sha) ?g))
     = [NewBuildCall ''7'' (sampleBuildConfig ''master'' sha)]"
    using R(2) by (simp add: sampleGithub_fields Itoa_7)
  show "engine
     (snd (trackPullRequest sampleEnv (sampleGithubApp c) (sampleEvent ''alice'' ''master'' sha) ?g))
     = [(''build-'' @ sha, sampleBuildConfig ''master'' sha)]"
    using R(3) by simp
qed

lemma refusing_GetBuild: "GetBuild (app refusingGithubApp) e tok = sampleGetBuild e tok"
  by (simp add: refusingGithubApp_def refusingApp_def)

lemma refusing_NewBuild:
  "NewBuild (app refusingGithubApp) e grp cfg = (([], Some ''engine is down''), e)"
  by (simp add: refusingGithubApp_def refusingApp_def)






section \<open>The claims\<close>

subsection \<open>The authorization gate and the branch filter\<close>

text \<open>
  Claim C1, as the code has it. An event that \<open>trackPullRequest\<close> handles (an opened
  pull request, or through \<open>updatePullRequest\<close> a synchronize event for an
  identifier without an entry) is dropped when the collaborator query fails, when the
  author is not a collaborator, or when the base branch is among the ignored branches:
  \<open>trackedPullRequests\<close> stays as it is, nothing is called and the engine is not
  touched.
\<close>

theorem gate_drops_event:
  assumes "EventPullRequest ev = Some p"
    and "(\<exists>owner repo user. collaboratorArgs p = Some (owner, repo, user)
            \<and> (snd (IsCollaborator w owner repo user) \<noteq> None
               \<or> \<not> fst (IsCollaborator w owner repo user)))
         \<or> (\<exists>b. baseRef p = Some b \<and> b \<in> set (IgnoredBranches (config a)))"
  shows "trackedPullRequests (snd (trackPullRequest w a ev g)) = trackedPullRequests g
       \<and> calls (snd (trackPullRequest w a ev g)) = calls g
       \<and> engine (snd (trackPullRequest w a ev g)) = engine g
       \<and> ((\<forall>pid. ID p = Some pid \<longrightarrow> trackedPullRequests g (Itoa pid) = None) \<longrightarrow>
             trackedPullRequests (snd (updatePullRequest w a ev g)) = trackedPullRequests g
           \<and> calls (snd (updatePullRequest w a ev g)) = calls g
           \<and> engine (snd (updatePullRequest w a ev g)) = engine g)"
proof -
  note D = trackPullRequest_dropped [OF assms]
  have U: "trackedPullRequests (snd (updatePullRequest w a ev g)) = trackedPullRequests g
           \<and> calls (snd (updatePullRequest w a ev g)) = calls g
           \<and> engine (snd (updatePullRequest w a ev g)) = engine g"
    if un: "\<forall>pid. ID p = Some pid \<longrightarrow> trackedPullRequests g (Itoa pid) = None"
  proof (cases "ID p")
    case None
    then show ?thesis using assms(1) by (simp add: updatePullRequest_def)
  next
    case (Some pid)
    then have "trackedPullRequests g (Itoa pid) = None" using un by simp
    from updatePullRequest_untracked [OF assms(1) Some this, of w a]
      D [of "logwarnf (''event on unknown/ignored pull request: '' @ Itoa pid) g"]
    show ?thesis by simp
  qed
  from D [of g] U show ?thesis by blast
qed

theorem gate_drops_event_witness:
  "EventPullRequest (sampleEvent ''mallory'' ''master'' ''abc123'')
     = Some (samplePull ''mallory'' ''master'' ''abc123'')
   \<and> collaboratorArgs (samplePull ''mallory'' ''master'' ''abc123'') = Some (''acme'', ''widget'', ''mallory'')
   \<and> fst (IsCollaborator sampleEnv ''acme'' ''widget'' ''mallory'') = False
   \<and> snd (IsCollaborator failingEnv ''acme'' ''widget'' ''alice'') = Some ''502 Bad Gateway''
   \<and> baseRef (samplePull ''alice'' ''release'' ''abc123'') = Some ''release''
   \<and> ''release'' \<in> set (IgnoredBranches (config (sampleGithubApp True)))
   \<and> trackedPullRequests (snd (trackPullRequest sampleEnv (sampleGithubApp True)
         (sampleEvent ''mallory'' ''master'' ''abc123'') (sampleGithub Map.empty []))) = Map.empty
   \<and> calls (snd (updatePullRequest sampleEnv (sampleGithubApp True)
         (sampleEvent ''mallory'' ''master'' ''abc123'') (sampleGithub Map.empty []))) = []
   \<and> trackedPullRequests (snd (trackPullRequest failingEnv (sampleGithubApp True)
         (sampleEvent ''alice'' ''master'' ''abc123'') (sampleGithub Map.empty []))) = Map.empty
   \<and> calls (snd (trackPullRequest failingEnv (sampleGithubApp True)
         (sampleEvent ''alice'' ''master'' ''abc123'') (sampleGithub Map.empty []))) = []
   \<and> trackedPullRequests (snd (trackPullRequest sampleEnv (sampleGithubApp True)
         (sampleEvent ''alice'' ''release'' ''abc123'') (sampleGithub Map.empty []))) = Map.empty
   \<and> calls (snd (trackPullRequest sampleEnv (sampleGithubApp True)
         (sampleEvent ''alice'' ''release'' ''abc123'') (sampleGithub Map.empty []))) = []"
proof -
  let ?g = "sampleGithub Map.empty []"
  let ?a = "sampleGithubApp True"
  have m: "fst (IsCollaborator sampleEnv ''acme'' ''widget'' ''mallory'') = False"
    by (simp add: sampleEnv_def)
  have f: "snd (IsCollaborator failingEnv ''acme'' ''widget'' ''alice'') = Some ''502 Bad Gateway''"
    by (simp add: failingEnv_def)
  have r: "''release'' \<in> set (IgnoredBranches (config ?a))" by (simp add: sample_ignored)
  have h1: "(\<exists>owner repo user. collaboratorArgs (samplePull ''mallory'' ''master'' ''abc123'') = Some (owner, repo, user)
            \<and> (snd (IsCollaborator sampleEnv owner repo user) \<noteq> None
               \<or> \<not> fst (IsCollaborator sampleEnv owner repo user)))
         \<or> (\<exists>b. baseRef (samplePull ''mallory'' ''master'' ''abc123'') = Some b \<and> b \<in> set (IgnoredBranches (config ?a)))"
    using m sample_collaboratorArgs by auto
  have h2: "(\<exists>owner repo user. collaboratorArgs (samplePull ''alice'' ''master'' ''abc123'') = Some (owner, repo, user)
            \<and> (snd (IsCollaborator failingEnv owner repo user) \<noteq> None
               \<or> \<not> fst (IsCollaborator failingEnv owner repo user)))
         \<or> (\<exists>b. baseRef (samplePull ''alice'' ''master'' ''abc123'') = Some b \<and> b \<in> set (IgnoredBranches (config ?a)))"
    using f sample_collaboratorArgs by auto
  have h3: "(\<exists>owner repo user. collaboratorArgs (samplePull ''alice'' ''release'' ''abc123'') = Some (owner, repo, user)
            \<and> (snd (IsCollaborator sampleEnv owner repo user) \<noteq> None
               \<or> \<not> fst (IsCollaborator sampleEnv owner repo user)))
         \<or> (\<exists>b. baseRef (samplePull ''alice'' ''release'' ''abc123'') = Some b \<and> b \<in> set (IgnoredBranches (config ?a)))"
    using r sample_baseRef by auto
  have un: "\<forall>pid. ID (samplePull ''mallory'' ''master'' ''abc123'') = Some pid
              \<longrightarrow> trackedPullRequests ?g (Itoa pid) = None"
    by (simp add: sampleGithub_fields)
  note A = gate_drops_event [OF sample_event h1, of ?g]
  note B = gate_drops_event [OF sample_event h2, of ?g]
  note C = gate_drops_event [OF sample_event h3, of ?g]
  from A un have A': "trackedPullRequests (snd (trackPullRequest sampleEnv ?a
         (sampleEvent ''mallory'' ''master'' ''abc123'') ?g)) = Map.empty"
    "calls (snd (updatePullRequest sampleEnv ?a (sampleEvent ''mallory'' ''master'' ''abc123'') ?g)) = []"
    by (simp_all add: sampleGithub_fields)
  from B have B': "trackedPullRequests (snd (trackPullRequest failingEnv ?a
         (sampleEvent ''alice'' ''master'' ''abc123'') ?g)) = Map.empty"
    "calls (snd (trackPullRequest failingEnv ?a (sampleEvent ''alice'' ''master'' ''abc123'') ?g)) = []"
    by (simp_all add: sampleGithub_fields)
  from C have C': "trackedPullRequests (snd (trackPullRequest sampleEnv ?a
         (sampleEvent ''alice'' ''release'' ''abc123'') ?g)) = Map.empty"
    "calls (snd (trackPullRequest sampleEnv ?a (sampleEvent ''alice'' ''release'' ''abc123'') ?g)) = []"
    by (simp_all add: sampleGithub_fields)
  show ?thesis
    using m f r A' B' C' by (simp add: sample_event sample_collaboratorArgs sample_baseRef)
qed

text \<open>
  Claim C1 as stated fails for a synchronize event on an identifier that is already
  tracked: \<open>updatePullRequest\<close> then calls \<open>buildPullRequest\<close> without the collaborator
  query and without the branch filter. Pull request 7 is tracked; a synchronize event
  arrives for it with a new head commit, once with the base branch \<open>release\<close>, which is
  ignored, and once when its author is no longer a collaborator. Both times a build is
  submitted.
\<close>

theorem gate_counterexample:
  "EventPullRequest (sampleEvent ''alice'' ''release'' ''def456'')
     = Some (samplePull ''alice'' ''release'' ''def456'')
   \<and> baseRef (samplePull ''alice'' ''release'' ''def456'') = Some ''release''
   \<and> ''release'' \<in> set (IgnoredBranches (config (sampleGithubApp True)))
   \<and> calls buildingGithub = []
   \<and> calls (snd (updatePullRequest sampleEnv (sampleGithubApp True)
                    (sampleEvent ''alice'' ''release'' ''def456'') buildingGithub))
       = [StopCall ''build-abc123'', NewBuildCall ''7'' (sampleBuildConfig ''release'' ''def456'')]
   \<and> collaboratorArgs (samplePull ''alice'' ''master'' ''def456'') = Some (''acme'', ''widget'', ''alice'')
   \<and> IsCollaborator revokedEnv ''acme'' ''widget'' ''alice'' = (False, None)
   \<and> calls (snd (updatePullRequest revokedEnv (sampleGithubApp True)
                    (sampleEvent ''alice'' ''master'' ''def456'') buildingGithub))
       = [StopCall ''build-abc123'', NewBuildCall ''7'' (sampleBuildConfig ''master'' ''def456'')]"
proof -
  let ?st = "\<lparr>pull = samplePull ''alice'' ''master'' ''abc123'',
              currentBuild = ''build-abc123'', mergeOnPass = False\<rparr>"
  have tr: "trackedPullRequests buildingGithub (Itoa 7) = Some ?st"
    by (simp add: Itoa_7 buildingGithub_tracked)
  have live: "fst (GetBuild (app (sampleGithubApp True)) (engine buildingGithub) (currentBuild ?st))
     = Some (sampleBuild ''build-abc123'' builtConfig)"
    by (simp add: buildingGithub_live)
  have new: "\<And>base. GetMetadata (Config (sampleBuild ''build-abc123'' builtConfig)) ''github:HeadHash''
               \<noteq> HeadHash (sampleBuildConfig base ''def456'')"
    by (simp add: sampleBuild_def builtConfig_HeadHash sampleBuildConfig_def)
  have tk: "Token (sampleBuild ''build-abc123'' builtConfig) = ''build-abc123''"
    by (simp add: sampleBuild_def)
  have 1: "calls (snd (updatePullRequest sampleEnv (sampleGithubApp True)
                    (sampleEvent ''alice'' ''release'' ''def456'') buildingGithub))
       = [StopCall ''build-abc123'', NewBuildCall ''7'' (sampleBuildConfig ''release'' ''def456'')]"
    using updatePullRequest_new_commit [OF sample_event samplePull_ID tr live sample_buildConfigFor new,
        of sampleEnv]
    by (simp add: sample_cancel buildingGithub_fields tk Itoa_7)
  have 2: "calls (snd (updatePullRequest revokedEnv (sampleGithubApp True)
                    (sampleEvent ''alice'' ''master'' ''def456'') buildingGithub))
       = [StopCall ''build-abc123'', NewBuildCall ''7'' (sampleBuildConfig ''master'' ''def456'')]"
    using updatePullRequest_new_commit [OF sample_event samplePull_ID tr live sample_buildConfigFor new,
        of revokedEnv]
    by (simp add: sample_cancel buildingGithub_fields tk Itoa_7)
  have 3: "IsCollaborator revokedEnv ''acme'' ''widget'' ''alice'' = (False, None)"
    by (simp add: revokedEnv_def)
  show ?thesis
    using 1 2 3
    by (simp add: sample_event sample_baseRef sample_ignored buildingGithub_fields
        sample_collaboratorArgs)
qed

subsection \<open>Two events with the same head commit\<close>




subsection \<open>A new commit on a tracked pull request\<close>

text \<open>
  Claim C3. A synchronize event for a tracked pull request whose entry resolves to a live
  build of another head commit: with cancel-on-new-commit the calls made are one
  \<open>Stop\<close> of that build and then the submission of the new build; without it the
  only call is the submission. The payload carries every field that the build
  configuration reads.
\<close>

theorem synchronize_new_commit:
  assumes "EventPullRequest ev = Some p" and "ID p = Some pid"
    and "trackedPullRequests g (Itoa pid) = Some st"
    and "fst (GetBuild (app a) (engine g) (currentBuild st)) = Some b"
    and "buildConfigFor p (Itoa pid) = Some cfg"
    and "headSHA p = Some sha"
    and "GetMetadata (Config b) ''github:HeadHash'' \<noteq> sha"
  shows "(CancelOnNewCommit (config a) \<longrightarrow>
            calls (snd (updatePullRequest w a ev g))
              = calls g @ [StopCall (Token b), NewBuildCall (Itoa pid) cfg])
       \<and> (\<not> CancelOnNewCommit (config a) \<longrightarrow>
            calls (snd (updatePullRequest w a ev g))
              = calls g @ [NewBuildCall (Itoa pid) cfg])"
proof -
  have "sha = HeadHash cfg" using buildConfigFor_HeadHash [OF assms(5)] assms(6) by simp
  with assms(7) have "GetMetadata (Config b) ''github:HeadHash'' \<noteq> HeadHash cfg" by simp
  from updatePullRequest_new_commit [OF assms(1-5) this, of w] show ?thesis by simp
qed

theorem synchronize_new_commit_witness:
  "EventPullRequest (sampleEvent ''alice'' ''master'' ''def456'')
     = Some (samplePull ''alice'' ''master'' ''def456'')
   \<and> ID (samplePull ''alice'' ''master'' ''def456'') = Some 7
   \<and> map_option currentBuild (trackedPullRequests buildingGithub (Itoa 7)) = Some ''build-abc123''
   \<and> headSHA (samplePull ''alice'' ''master'' ''def456'') = Some ''def456''
   \<and> GetMetadata (Config (sampleBuild ''build-abc123'' builtConfig)) ''github:HeadHash'' = ''abc123''
   \<and> calls (snd (updatePullRequest sampleEnv (sampleGithubApp True)
                    (sampleEvent ''alice'' ''master'' ''def456'') buildingGithub))
       = [StopCall ''build-abc123'', NewBuildCall ''7'' (sampleBuildConfig ''master'' ''def456'')]
   \<and> calls (snd (updatePullRequest sampleEnv (sampleGithubApp False)
                    (sampleEvent ''alice'' ''master'' ''def456'') buildingGithub))
       = [NewBuildCall ''7'' (sampleBuildConfig ''master'' ''def456'')]"
proof -
  let ?ev = "sampleEvent ''alice'' ''master'' ''def456''"
  let ?p = "samplePull ''alice'' ''master'' ''def456''"
  let ?st = "\<lparr>pull = samplePull ''alice'' ''master'' ''abc123'',
              currentBuild = ''build-abc123'', mergeOnPass = False\<rparr>"
  have tr: "trackedPullRequests buildingGithub (Itoa 7) = Some ?st"
    by (simp add: Itoa_7 buildingGithub_tracked)
  have live: "\<And>c. fst (GetBuild (app (sampleGithubApp c)) (engine buildingGithub) (currentBuild ?st))
     = Some (sampleBuild ''build-abc123'' builtConfig)"
    by (simp add: buildingGithub_live)
  have md: "GetMetadata (Config (sampleBuild ''build-abc123'' builtConfig)) ''github:HeadHash'' = ''abc123''"
    by (simp add: sampleBuild_def builtConfig_HeadHash)
  have new: "GetMetadata (Config (sampleBuild ''build-abc123'' builtConfig)) ''github:HeadHash'' \<noteq> ''def456''"
    by (simp add: md)
  note T = synchronize_new_commit [OF sample_event samplePull_ID tr live sample_buildConfigFor
      sample_headSHA new, of True sampleEnv]
  note F = synchronize_new_commit [OF sample_event samplePull_ID tr live sample_buildConfigFor
      sample_headSHA new, of False sampleEnv]
  have tk: "Token (sampleBuild ''build-abc123'' builtConfig) = ''build-abc123''"
    by (simp add: sampleBuild_def)
  from T have 1: "calls (snd (updatePullRequest sampleEnv (sampleGithubApp True) ?ev buildingGithub))
       = [StopCall ''build-abc123'', NewBuildCall ''7'' (sampleBuildConfig ''master'' ''def456'')]"
    by (simp add: sample_cancel buildingGithub_fields tk Itoa_7)
  from F have 2: "calls (snd (updatePullRequest sampleEnv (sampleGithubApp False) ?ev buildingGithub))
       = [NewBuildCall ''7'' (sampleBuildConfig ''master'' ''def456'')]"
    by (simp add: sample_cancel buildingGithub_fields Itoa_7)
  show ?thesis
    using 1 2 md by (simp add: sample_event samplePull_ID tr sample_headSHA)
qed

subsection \<open>Closing a pull request\<close>

text \<open>
  Claim C4. A closed event for an identifier that is not tracked changes nothing. For a
  tracked identifier the entry is removed whatever the configuration says, and the build
  that the entry's token resolves to is stopped exactly when cancel-on-new-commit is set
  and the token resolves to a build; nothing else is called.
\<close>

theorem closed_removes_entry:
  assumes "EventPullRequest ev = Some p" and "ID p = Some pid"
  shows "(trackedPullRequests g (Itoa pid) = None \<longrightarrow> closedPullRequest a ev g = (Returned, g))
       \<and> (\<forall>st. trackedPullRequests g (Itoa pid) = Some st \<longrightarrow>
             fst (closedPullRequest a ev g) = Returned
           \<and> trackedPullRequests (snd (closedPullRequest a ev g))
               = (trackedPullRequests g)(Itoa pid := None)
           \<and> calls (snd (closedPullRequest a ev g))
               = calls g @
                 (case fst (GetBuild (app a) (engine g) (currentBuild st)) of
                    None \<Rightarrow> []
                  | Some build \<Rightarrow> if CancelOnNewCommit (config a) then [StopCall (Token build)] else []))"
  using assms by (auto simp: closedPullRequest_def Let_def split: option.splits)

theorem closed_removes_entry_witness:
  "EventPullRequest (sampleEvent ''alice'' ''master'' ''abc123'')
     = Some (samplePull ''alice'' ''master'' ''abc123'')
   \<and> ID (samplePull ''alice'' ''master'' ''abc123'') = Some 7
   \<and> trackedPullRequests buildingGithub (Itoa 7) \<noteq> None
   \<and> trackedPullRequests
        (snd (closedPullRequest (sampleGithubApp True) (sampleEvent ''alice'' ''master'' ''abc123'')
                buildingGithub)) (Itoa 7) = None
   \<and> calls (snd (closedPullRequest (sampleGithubApp True) (sampleEvent ''alice'' ''master'' ''abc123'')
                buildingGithub)) = [StopCall ''build-abc123'']
   \<and> trackedPullRequests
        (snd (closedPullRequest (sampleGithubApp False) (sampleEvent ''alice'' ''master'' ''abc123'')
                buildingGithub)) (Itoa 7) = None
   \<and> calls (snd (closedPullRequest (sampleGithubApp False) (sampleEvent ''alice'' ''master'' ''abc123'')
                buildingGithub)) = []
   \<and> trackedPullRequests (sampleGithub Map.empty []) (Itoa 7) = None
   \<and> closedPullRequest (sampleGithubApp True) (sampleEvent ''alice'' ''master'' ''abc123'')
        (sampleGithub Map.empty []) = (Returned, sampleGithub Map.empty [])"
proof -
  let ?ev = "sampleEvent ''alice'' ''master'' ''abc123''"
  let ?p = "samplePull ''alice'' ''master'' ''abc123''"
  have ev: "EventPullRequest ?ev = Some ?p" by (simp add: sampleEvent_def)
  have pid: "ID ?p = Some 7" by (rule samplePull_ID)
  have tr: "trackedPullRequests buildingGithub (Itoa 7)
              = Some \<lparr>pull = ?p, currentBuild = ''build-abc123'', mergeOnPass = False\<rparr>"
    by (simp add: Itoa_7 buildingGithub_tracked)
  have un: "trackedPullRequests (sampleGithub Map.empty []) (Itoa 7) = None"
    by (simp add: sampleGithub_def)
  have cs: "calls buildingGithub = []" by (simp add: buildingGithub_def sampleGithub_def)
  have cfgs: "CancelOnNewCommit (config (sampleGithubApp True))"
    "\<not> CancelOnNewCommit (config (sampleGithubApp False))"
    by (simp_all add: sampleGithubApp_def sampleConfig_def)
  note T = closed_removes_entry [OF ev pid, of buildingGithub "sampleGithubApp True"]
  note F = closed_removes_entry [OF ev pid, of buildingGithub "sampleGithubApp False"]
  note U = closed_removes_entry [OF ev pid, of "sampleGithub Map.empty []" "sampleGithubApp True"]
  from T tr have T': "trackedPullRequests (snd (closedPullRequest (sampleGithubApp True) ?ev buildingGithub))
               = (trackedPullRequests buildingGithub)(Itoa 7 := None)"
     "calls (snd (closedPullRequest (sampleGithubApp True) ?ev buildingGithub)) = [StopCall ''build-abc123'']"
    by (simp_all add: sampleGetBuild_built cfgs cs sampleBuild_def)
  from F tr have F': "trackedPullRequests (snd (closedPullRequest (sampleGithubApp False) ?ev buildingGithub))
               = (trackedPullRequests buildingGithub)(Itoa 7 := None)"
     "calls (snd (closedPullRequest (sampleGithubApp False) ?ev buildingGithub)) = []"
    by (simp_all add: sampleGetBuild_built cfgs cs)
  from U un have U': "closedPullRequest (sampleGithubApp True) ?ev (sampleGithub Map.empty [])
      = (Returned, sampleGithub Map.empty [])" by blast
  show ?thesis using ev pid tr un by (simp add: T' F' U')
qed

subsection \<open>The OAuth callback\<close>

text \<open>
  Claim C5. A callback whose \<open>state\<close> is not the process nonce leaves the whole state
  as it is: no client, no broadcast, no cache entry. So does a callback whose code the
  token endpoint refuses. A successful exchange stores the access token under
  \<open>github:token\<close>, installs the client built from the token and broadcasts once.
\<close>

theorem oauth_callback:
  "(state \<noteq> oauth2State w \<longrightarrow> snd (handleGithubAuth w state code g) = g)
   \<and> (\<forall>err. state = oauth2State w \<and> Exchange w (getOauthConfig g) code = Inl err \<longrightarrow>
          snd (handleGithubAuth w state code g) = g)
   \<and> (\<forall>token. state = oauth2State w \<and> Exchange w (getOauthConfig g) code = Inr token \<longrightarrow>
          snd (handleGithubAuth w state code g) =
            g\<lparr>cache := (cache g)(''github:token'' \<mapsto> AccessToken token),
              client := Some \<lparr>tokenSourceConfig = getOauthConfig g, tokenSourceToken = token\<rparr>,
              broadcasts := broadcasts g + 1\<rparr>)"
  by (simp add: handleGithubAuth_def setClient_def StoreCache_def getOauthConfig_def)

theorem oauth_callback_witness:
  "''forged'' \<noteq> oauth2State sampleEnv
   \<and> snd (handleGithubAuth sampleEnv ''forged'' ''good'' bootGithub) = bootGithub
   \<and> Exchange sampleEnv (getOauthConfig bootGithub) ''stale'' = Inl ''bad verification code''
   \<and> snd (handleGithubAuth sampleEnv (oauth2State sampleEnv) ''stale'' bootGithub) = bootGithub
   \<and> Exchange sampleEnv (getOauthConfig bootGithub) ''good'' = Inr \<lparr>AccessToken = ''gho_1''\<rparr>
   \<and> client (snd (handleGithubAuth sampleEnv (oauth2State sampleEnv) ''good'' bootGithub))
       = Some \<lparr>tokenSourceConfig = getOauthConfig bootGithub,
               tokenSourceToken = \<lparr>AccessToken = ''gho_1''\<rparr>\<rparr>
   \<and> cache (snd (handleGithubAuth sampleEnv (oauth2State sampleEnv) ''good'' bootGithub)) ''github:token''
       = Some ''gho_1''
   \<and> broadcasts (snd (handleGithubAuth sampleEnv (oauth2State sampleEnv) ''good'' bootGithub)) = 1
   \<and> client bootGithub = None \<and> broadcasts bootGithub = 0"
proof -
  have ne: "''forged'' \<noteq> oauth2State sampleEnv" by (simp add: sampleEnv_def)
  have bad: "Exchange sampleEnv (getOauthConfig bootGithub) ''stale'' = Inl ''bad verification code''"
    by (simp add: sampleEnv_def)
  have good: "Exchange sampleEnv (getOauthConfig bootGithub) ''good'' = Inr \<lparr>AccessToken = ''gho_1''\<rparr>"
    by (simp add: sampleEnv_def)
  have boot: "client bootGithub = None" "broadcasts bootGithub = 0"
    by (simp_all add: bootGithub_def sampleGithub_def)
  from oauth_callback [of "''forged''" sampleEnv "''good''" bootGithub] ne
  have 1: "snd (handleGithubAuth sampleEnv ''forged'' ''good'' bootGithub) = bootGithub" by blast
  from oauth_callback [of "oauth2State sampleEnv" sampleEnv "''stale''" bootGithub] bad
  have 2: "snd (handleGithubAuth sampleEnv (oauth2State sampleEnv) ''stale'' bootGithub) = bootGithub"
    by blast
  from oauth_callback [of "oauth2State sampleEnv" sampleEnv "''good''" bootGithub] good
  have 3: "snd (handleGithubAuth sampleEnv (oauth2State sampleEnv) ''good'' bootGithub) =
            bootGithub\<lparr>cache := (cache bootGithub)(''github:token'' \<mapsto> AccessToken \<lparr>AccessToken = ''gho_1''\<rparr>),
              client := Some \<lparr>tokenSourceConfig = getOauthConfig bootGithub,
                             tokenSourceToken = \<lparr>AccessToken = ''gho_1''\<rparr>\<rparr>,
              broadcasts := broadcasts bootGithub + 1\<rparr>"
    by blast
  show ?thesis using ne bad good boot by (simp add: 1 2 3)
qed

subsection \<open>The outcome of a submission\<close>

text \<open>
  Claim C6. \<open>buildPullRequest\<close> on a tracked pull request, when it reaches the
  submission (the entry's token resolves to no build of the same head commit, and the
  payload is complete). \<open>eS\<close> is the engine at the submission: the engine of the state,
  after the \<open>Stop\<close> of the prior build if one was stopped. If \<open>NewBuild\<close> answers
  with an error, \<open>trackedPullRequests\<close> is as before, so the entry keeps its token. If
  it answers with a token that \<open>GetBuild\<close> resolves without error, the entry carries
  that token. If the token does not resolve, \<open>trackedPullRequests\<close> is as before.
  \<open>NewBuild\<close> is called once in every case.
\<close>

theorem submission_outcome:
  assumes "ID p = Some pid" and "trackedPullRequests g (Itoa pid) = Some st"
    and "buildConfigFor p (Itoa pid) = Some cfg"
    and "\<forall>b. fst (GetBuild (app a) (engine g) (currentBuild st)) = Some b
                \<longrightarrow> GetMetadata (Config b) ''github:HeadHash'' \<noteq> HeadHash cfg"
    and "eS = (case fst (GetBuild (app a) (engine g) (currentBuild st)) of
                 None \<Rightarrow> engine g
               | Some b \<Rightarrow> if CancelOnNewCommit (config a) then Stop b (engine g) else engine g)"
    and "NewBuild (app a) eS (Itoa pid) cfg = ((tok, err), e')"
  shows "(err \<noteq> None \<longrightarrow>
            trackedPullRequests (snd (buildPullRequest a p g)) = trackedPullRequests g)
       \<and> (err = None \<and> (\<exists>b. GetBuild (app a) e' tok = (Some b, None)) \<longrightarrow>
            trackedPullRequests (snd (buildPullRequest a p g))
              = (trackedPullRequests g)(Itoa pid \<mapsto> st\<lparr>currentBuild := tok\<rparr>))
       \<and> (err = None \<and> \<not> (\<exists>b. GetBuild (app a) e' tok = (Some b, None)) \<longrightarrow>
            trackedPullRequests (snd (buildPullRequest a p g)) = trackedPullRequests g)
       \<and> submissions (calls (snd (buildPullRequest a p g))) = Suc (submissions (calls g))"
proof -
  from buildPullRequest_reaches_submit [OF assms(1-4)] assms(5)
  obtain gS where E: "buildPullRequest a p g = submitBuild a p pid st gS"
    and T: "trackedPullRequests gS = trackedPullRequests g"
    and S: "submissions (calls gS) = submissions (calls g)"
    and N: "engine gS = eS"
    by auto
  have nb: "NewBuild (app a) (engine gS) (Itoa pid) cfg = ((tok, err), e')"
    using assms(6) N by simp
  have 1: "trackedPullRequests (snd (buildPullRequest a p g)) = trackedPullRequests g"
    if "err \<noteq> None"
  proof -
    from that obtain m where "err = Some m" by auto
    with nb have "NewBuild (app a) (engine gS) (Itoa pid) cfg = ((tok, Some m), e')" by simp
    from submitBuild_refused [OF assms(3) this, of st] show ?thesis
      unfolding E by (simp add: T)
  qed
  have 2: "trackedPullRequests (snd (buildPullRequest a p g))
              = (trackedPullRequests g)(Itoa pid \<mapsto> st\<lparr>currentBuild := tok\<rparr>)"
    if "err = None" and "GetBuild (app a) e' tok = (Some b, None)" for b
  proof -
    from nb that(1) have "NewBuild (app a) (engine gS) (Itoa pid) cfg = ((tok, None), e')" by simp
    from submitBuild_ok [OF assms(3) this that(2), of st] show ?thesis
      unfolding E by (simp add: T)
  qed
  have 3: "trackedPullRequests (snd (buildPullRequest a p g)) = trackedPullRequests g"
    if "err = None" and "\<not> (\<exists>b. GetBuild (app a) e' tok = (Some b, None))"
  proof -
    from nb that(1) have n: "NewBuild (app a) (engine gS) (Itoa pid) cfg = ((tok, None), e')" by simp
    obtain bo eo where r: "GetBuild (app a) e' tok = (bo, eo)" by (metis prod.exhaust)
    with that(2) have "eo \<noteq> None \<or> bo = None" by auto
    from submitBuild_unresolved [OF assms(3) n r this, of st] show ?thesis
      unfolding E by (simp add: T)
  qed
  have 4: "submissions (calls (snd (buildPullRequest a p g))) = Suc (submissions (calls g))"
    unfolding E by (simp add: submitBuild_calls [OF assms(3)] S)
  from 1 2 3 4 show ?thesis by blast
qed

theorem submission_outcome_witness:
  "ID (samplePull ''alice'' ''master'' ''def456'') = Some 7
   \<and> map_option currentBuild (trackedPullRequests buildingGithub (Itoa 7)) = Some ''build-abc123''
   \<and> buildConfigFor (samplePull ''alice'' ''master'' ''def456'') (Itoa 7)
       = Some (sampleBuildConfig ''master'' ''def456'')
   \<and> snd (fst (NewBuild (app refusingGithubApp) (engine buildingGithub) (Itoa 7)
                  (sampleBuildConfig ''master'' ''def456''))) = Some ''engine is down''
   \<and> map_option currentBuild
        (trackedPullRequests
           (snd (buildPullRequest refusingGithubApp (samplePull ''alice'' ''master'' ''def456'')
                   buildingGithub)) (Itoa 7)) = Some ''build-abc123''
   \<and> submissions (calls (snd (buildPullRequest refusingGithubApp
                                 (samplePull ''alice'' ''master'' ''def456'') buildingGithub))) = 1
   \<and> fst (NewBuild (app (sampleGithubApp True)) (engine buildingGithub) (Itoa 7)
             (sampleBuildConfig ''master'' ''def456'')) = (''build-def456'', None)
   \<and> map_option currentBuild
        (trackedPullRequests
           (snd (buildPullRequest (sampleGithubApp True) (samplePull ''alice'' ''master'' ''def456'')
                   buildingGithub)) (Itoa 7)) = Some ''build-def456''
   \<and> submissions (calls (snd (buildPullRequest (sampleGithubApp True)
                                 (samplePull ''alice'' ''master'' ''def456'') buildingGithub))) = 1"
proof -
  let ?p = "samplePull ''alice'' ''master'' ''def456''"
  let ?cfg = "sampleBuildConfig ''master'' ''def456''"
  let ?st = "\<lparr>pull = samplePull ''alice'' ''master'' ''abc123'',
              currentBuild = ''build-abc123'', mergeOnPass = False\<rparr>"
  let ?e = "[(''build-abc123'', builtConfig)]"
  have pid: "ID ?p = Some 7" by (rule samplePull_ID)
  have tr: "trackedPullRequests buildingGithub (Itoa 7) = Some ?st"
    by (simp add: Itoa_7 buildingGithub_tracked)
  have cfg: "buildConfigFor ?p (Itoa 7) = Some ?cfg" by (rule sample_buildConfigFor)
  have hh: "HeadHash ?cfg = ''def456''" by (simp add: sampleBuildConfig_def)
  note gb = buildingGithub_live
  have cur: "currentBuild ?st = ''build-abc123''" by simp
  have gbr: "fst (GetBuild (app refusingGithubApp) (engine buildingGithub) ''build-abc123'')
              = Some (sampleBuild ''build-abc123'' builtConfig)"
    by (simp add: refusing_GetBuild sampleGetBuild_def buildingGithub_fields)
  have md: "GetMetadata (Config (sampleBuild ''build-abc123'' builtConfig)) ''github:HeadHash'' = ''abc123''"
    by (simp add: sampleBuild_def builtConfig_HeadHash)
  have ns: "\<forall>b. fst (GetBuild (app (sampleGithubApp True)) (engine buildingGithub) (currentBuild ?st)) = Some b
                \<longrightarrow> GetMetadata (Config b) ''github:HeadHash'' \<noteq> HeadHash ?cfg"
    using md by (simp add: gb hh)
  have nsr: "\<forall>b. fst (GetBuild (app refusingGithubApp) (engine buildingGithub) (currentBuild ?st)) = Some b
                \<longrightarrow> GetMetadata (Config b) ''github:HeadHash'' \<noteq> HeadHash ?cfg"
    using md by (simp add: gbr hh)
  have st: "Stop (sampleBuild ''build-abc123'' builtConfig) ?e = ?e" by (simp add: sampleBuild_def)
  have eS: "?e = (case fst (GetBuild (app (sampleGithubApp True)) (engine buildingGithub) (currentBuild ?st)) of
                 None \<Rightarrow> engine buildingGithub
               | Some b \<Rightarrow> if CancelOnNewCommit (config (sampleGithubApp True))
                           then Stop b (engine buildingGithub) else engine buildingGithub)"
    by (simp only: cur gb option.case) (simp add: buildingGithub_fields st)
  have eSr: "?e = (case fst (GetBuild (app refusingGithubApp) (engine buildingGithub) (currentBuild ?st)) of
                 None \<Rightarrow> engine buildingGithub
               | Some b \<Rightarrow> if CancelOnNewCommit (config refusingGithubApp)
                           then Stop b (engine buildingGithub) else engine buildingGithub)"
    by (simp only: cur gbr option.case) (simp add: buildingGithub_fields st)
  have nbr: "NewBuild (app refusingGithubApp) ?e (Itoa 7) ?cfg = (([], Some ''engine is down''), ?e)"
    by (rule refusing_NewBuild)
  have nb: "NewBuild (app (sampleGithubApp True)) ?e (Itoa 7) ?cfg
              = ((''build-def456'', None), (''build-def456'', ?cfg) # ?e)"
    using sample_submission(1) [of True ?e "''master''" "''def456''"] by simp
  have res: "GetBuild (app (sampleGithubApp True)) ((''build-def456'', ?cfg) # ?e) ''build-def456''
               = (Some (sampleBuild ''build-def456'' ?cfg), None)"
    using sample_submission(2) [of True "''def456''" "''master''" ?e] by simp
  note R = submission_outcome [OF pid tr cfg nsr eSr nbr]
  note A = submission_outcome [OF pid tr cfg ns eS nb]
  from R have R1: "trackedPullRequests (snd (buildPullRequest refusingGithubApp ?p buildingGithub))
      = trackedPullRequests buildingGithub" by blast
  from R have R2: "submissions (calls (snd (buildPullRequest refusingGithubApp ?p buildingGithub)))
      = Suc (submissions (calls buildingGithub))" by blast
  from A res have A1: "trackedPullRequests (snd (buildPullRequest (sampleGithubApp True) ?p buildingGithub))
      = (trackedPullRequests buildingGithub)(Itoa 7 \<mapsto> ?st\<lparr>currentBuild := ''build-def456''\<rparr>)"
    by blast
  from A have A2: "submissions (calls (snd (buildPullRequest (sampleGithubApp True) ?p buildingGithub)))
      = Suc (submissions (calls buildingGithub))" by blast
  show ?thesis
    using nbr nb
    by (simp add: pid cfg R1 R2 A1 A2 tr buildingGithub_fields)
qed

subsection \<open>The build ledger\<close>

text \<open>
  Claim C7. A build token appears at most once in \<open>trackedBuilds\<close>, and every
  operation keeps it so. \<open>trackBuild\<close> of a token that is already tracked changes
  nothing; of a new token it appends the build and calls \<open>Ref\<close> once. \<open>untrackBuild\<close>
  of a token that is not tracked changes nothing; of a tracked token it removes the build,
  so that the token is gone, and calls \<open>Unref\<close> once. The operations of the tracker, the
  OAuth callback and the webhook registration leave the ledger as it is.
\<close>

theorem build_ledger_invariant:
  fixes g :: "'e Github"
  assumes d: "distinct (map Token (trackedBuilds g))"
  shows "distinct (map Token (trackedBuilds (trackBuild b g)))
       \<and> distinct (map Token (trackedBuilds (untrackBuild b g)))
       \<and> (Token b \<in> Token ` set (trackedBuilds g) \<longrightarrow> trackBuild b g = g)
       \<and> (Token b \<notin> Token ` set (trackedBuilds g) \<longrightarrow>
            trackedBuilds (trackBuild b g) = trackedBuilds g @ [b]
          \<and> calls (trackBuild b g) = calls g @ [RefCall (Token b)]
          \<and> engine (trackBuild b g) = RefBuild b (engine g))
       \<and> (Token b \<notin> Token ` set (trackedBuilds g) \<longrightarrow> untrackBuild b g = g)
       \<and> (Token b \<in> Token ` set (trackedBuilds g) \<longrightarrow>
            Token b \<notin> Token ` set (trackedBuilds (untrackBuild b g))
          \<and> trackedBuilds (untrackBuild b g) = filter (\<lambda>t. Token t \<noteq> Token b) (trackedBuilds g)
          \<and> calls (untrackBuild b g) = calls g @ [UnrefCall (Token b)])
       \<and> distinct (map Token (trackedBuilds (snd (trackPullRequest w a ev g))))
       \<and> distinct (map Token (trackedBuilds (snd (updatePullRequest w a ev g))))
       \<and> distinct (map Token (trackedBuilds (snd (buildPullRequest a p g))))
       \<and> distinct (map Token (trackedBuilds (snd (closedPullRequest a ev g))))
       \<and> distinct (map Token (trackedBuilds (snd (handleGithubAuth w st code g))))
       \<and> distinct (map Token (trackedBuilds (snd (setupHooks w a g))))"
proof -
  have t1: "distinct (map Token (trackedBuilds (trackBuild b g)))"
    using d by (auto simp: trackBuild_def tokenTracked_iff)
  have u_abs: "Token b \<notin> Token ` set (trackedBuilds g) \<Longrightarrow> untrackBuild b g = g"
    by (simp add: untrackBuild_def findBuildIndex_absent)
  have u_pres: "Token b \<in> Token ` set (trackedBuilds g) \<Longrightarrow>
      trackedBuilds (untrackBuild b g) = filter (\<lambda>t. Token t \<noteq> Token b) (trackedBuilds g)
      \<and> calls (untrackBuild b g) = calls g @ [UnrefCall (Token b)]"
    using untrackBuild_present [OF d] by simp
  have u1: "distinct (map Token (trackedBuilds (untrackBuild b g)))"
  proof (cases "Token b \<in> Token ` set (trackedBuilds g)")
    case True
    then show ?thesis using u_pres d by (simp add: distinct_map_filter_keep)
  next
    case False
    then show ?thesis using u_abs d by simp
  qed
  have t_pres: "Token b \<in> Token ` set (trackedBuilds g) \<Longrightarrow> trackBuild b g = g"
    by (simp add: trackBuild_def tokenTracked_iff)
  have t_abs: "Token b \<notin> Token ` set (trackedBuilds g) \<Longrightarrow>
            trackedBuilds (trackBuild b g) = trackedBuilds g @ [b]
          \<and> calls (trackBuild b g) = calls g @ [RefCall (Token b)]
          \<and> engine (trackBuild b g) = RefBuild b (engine g)"
    by (simp add: trackBuild_def tokenTracked_iff)
  have u_gone: "Token b \<in> Token ` set (trackedBuilds g) \<Longrightarrow>
            Token b \<notin> Token ` set (trackedBuilds (untrackBuild b g))"
    using u_pres by auto
  show ?thesis
    using t1 u1 t_pres t_abs u_abs u_gone u_pres d
    by (simp add: trackPullRequest_trackedBuilds updatePullRequest_trackedBuilds
        buildPullRequest_trackedBuilds closedPullRequest_trackedBuilds
        handleGithubAuth_trackedBuilds setupHooks_trackedBuilds)
qed

theorem build_ledger_invariant_witness:
  "distinct (map Token (trackedBuilds ledgerGithub))
   \<and> Token ledgerBuildB \<notin> Token ` set (trackedBuilds ledgerGithub)
   \<and> Token ledgerBuildA \<in> Token ` set (trackedBuilds ledgerGithub)
   \<and> map Token (trackedBuilds (trackBuild ledgerBuildB ledgerGithub)) = [''build-a'', ''build-b'']
   \<and> calls (trackBuild ledgerBuildB ledgerGithub) = [RefCall ''build-b'']
   \<and> calls (trackBuild ledgerBuildA ledgerGithub) = []
   \<and> map Token (trackedBuilds (trackBuild ledgerBuildA ledgerGithub)) = [''build-a'']
   \<and> trackedBuilds (untrackBuild ledgerBuildA ledgerGithub) = []
   \<and> calls (untrackBuild ledgerBuildA ledgerGithub) = [UnrefCall ''build-a'']
   \<and> calls (untrackBuild ledgerBuildB ledgerGithub) = []
   \<and> map Token (trackedBuilds (untrackBuild ledgerBuildB ledgerGithub)) = [''build-a'']"
proof -
  have d: "distinct (map Token (trackedBuilds ledgerGithub))"
    by (simp add: ledgerGithub_def sampleGithub_def)
  have nb: "Token ledgerBuildB \<notin> Token ` set (trackedBuilds ledgerGithub)"
    by (simp add: ledgerGithub_def sampleGithub_def ledgerBuildA_def ledgerBuildB_def sampleBuild_def)
  have ma: "Token ledgerBuildA \<in> Token ` set (trackedBuilds ledgerGithub)"
    by (simp add: ledgerGithub_def sampleGithub_def)
  have ts: "map Token (trackedBuilds ledgerGithub) = [''build-a'']" "calls ledgerGithub = []"
    "Token ledgerBuildB = ''build-b''" "Token ledgerBuildA = ''build-a''"
    by (simp_all add: ledgerGithub_def sampleGithub_def ledgerBuildA_def ledgerBuildB_def sampleBuild_def)
  have fl: "filter (\<lambda>t. Token t \<noteq> ''build-a'') (trackedBuilds ledgerGithub) = []"
    by (simp add: ledgerGithub_def sampleGithub_def ledgerBuildA_def sampleBuild_def)
  from build_ledger_invariant [OF d, of ledgerBuildB] nb
  have B: "trackedBuilds (trackBuild ledgerBuildB ledgerGithub) = trackedBuilds ledgerGithub @ [ledgerBuildB]"
    "calls (trackBuild ledgerBuildB ledgerGithub) = calls ledgerGithub @ [RefCall (Token ledgerBuildB)]"
    "untrackBuild ledgerBuildB ledgerGithub = ledgerGithub"
    by simp_all
  from build_ledger_invariant [OF d, of ledgerBuildA] ma
  have A: "trackBuild ledgerBuildA ledgerGithub = ledgerGithub"
    "trackedBuilds (untrackBuild ledgerBuildA ledgerGithub)
       = filter (\<lambda>t. Token t \<noteq> Token ledgerBuildA) (trackedBuilds ledgerGithub)"
    "calls (untrackBuild ledgerBuildA ledgerGithub) = calls ledgerGithub @ [UnrefCall (Token ledgerBuildA)]"
    by simp_all
  show ?thesis using d nb ma by (simp add: A B ts fl)
qed

subsection \<open>The webhook\<close>

text \<open>
  Claim C8, as the code has it. With a client and an existing repository,
  \<open>setupHooks\<close> asks for one webhook: for the seven events \<open>pull_request\<close>,
  \<open>delete\<close>, \<open>issue_comment\<close>, \<open>pull_request_review\<close>,
  \<open>pull_request_review_event\<close>, \<open>push\<close> and \<open>status\<close>, at the URL of the server
  followed by \<open>/cb/github/hook/\<close> and the name of the application. An answer that
  contains \<open>Hook already exists\<close> ends as the answer without an error does: nothing is
  logged.
\<close>

theorem webhook_registration:
  assumes "client g = Some c"
    and "RepositoriesGet w (cfgOwner (config a)) (cfgRepo (config a)) = None"
  shows "calls (snd (setupHooks w a g))
           = calls g @ [CreateHookCall (cfgOwner (config a)) (cfgRepo (config a)) (hookFor w a)]
       \<and> Events (hookFor w a)
           = [''pull_request'', ''delete'', ''issue_comment'', ''pull_request_review'',
              ''pull_request_review_event'', ''push'', ''status'']
       \<and> HookConfig (hookFor w a) ''url''
           = Some (GetHTTPServerURL w @ ''/cb/github/hook/'' @ AppName (app a))
       \<and> (CreateHook w (cfgOwner (config a)) (cfgRepo (config a)) (hookFor w a) = None \<longrightarrow>
            setupHooks w a g =
              (Returned,
               g\<lparr>calls := calls g @ [CreateHookCall (cfgOwner (config a)) (cfgRepo (config a)) (hookFor w a)]\<rparr>))
       \<and> (\<forall>err. CreateHook w (cfgOwner (config a)) (cfgRepo (config a)) (hookFor w a) = Some err
                \<and> Contains err ''Hook already exists'' \<longrightarrow>
            setupHooks w a g =
              (Returned,
               g\<lparr>calls := calls g @ [CreateHookCall (cfgOwner (config a)) (cfgRepo (config a)) (hookFor w a)]\<rparr>))"
proof -
  have 1: "calls (snd (setupHooks w a g))
           = calls g @ [CreateHookCall (cfgOwner (config a)) (cfgRepo (config a)) (hookFor w a)]"
    using assms by (simp add: setupHooks_def Let_def logwarnf_def split: option.splits)
  have 2: "Events (hookFor w a)
           = [''pull_request'', ''delete'', ''issue_comment'', ''pull_request_review'',
              ''pull_request_review_event'', ''push'', ''status'']"
    by (simp add: hookFor_def hookEvents_def)
  have 3: "HookConfig (hookFor w a) ''url''
           = Some (GetHTTPServerURL w @ ''/cb/github/hook/'' @ AppName (app a))"
    by (simp add: hookFor_def)
  have 4: "CreateHook w (cfgOwner (config a)) (cfgRepo (config a)) (hookFor w a) = None \<Longrightarrow>
            setupHooks w a g =
              (Returned,
               g\<lparr>calls := calls g @ [CreateHookCall (cfgOwner (config a)) (cfgRepo (config a)) (hookFor w a)]\<rparr>)"
    using assms by (simp add: setupHooks_def Let_def)
  have 5: "\<And>err. CreateHook w (cfgOwner (config a)) (cfgRepo (config a)) (hookFor w a) = Some err
             \<Longrightarrow> Contains err ''Hook already exists'' \<Longrightarrow>
            setupHooks w a g =
              (Returned,
               g\<lparr>calls := calls g @ [CreateHookCall (cfgOwner (config a)) (cfgRepo (config a)) (hookFor w a)]\<rparr>)"
    using assms by (simp add: setupHooks_def Let_def)
  show ?thesis using 1 2 3 4 5 by blast
qed

theorem webhook_registration_witness:
  "client (sampleGithub Map.empty []) = Some sampleClient
   \<and> RepositoriesGet sampleEnv (cfgOwner (config (sampleGithubApp True)))
        (cfgRepo (config (sampleGithubApp True))) = None
   \<and> CreateHook sampleEnv ''acme'' ''widget'' (hookFor sampleEnv (sampleGithubApp True))
       = Some ''422 Hook already exists on this repository''
   \<and> calls (snd (setupHooks sampleEnv (sampleGithubApp True) (sampleGithub Map.empty [])))
       = [CreateHookCall ''acme'' ''widget'' (hookFor sampleEnv (sampleGithubApp True))]
   \<and> logged (snd (setupHooks sampleEnv (sampleGithubApp True) (sampleGithub Map.empty []))) = []
   \<and> HookConfig (hookFor sampleEnv (sampleGithubApp True)) ''url''
       = Some ''http://ci.example.com/cb/github/hook/widget-ci''"
proof -
  let ?a = "sampleGithubApp True"
  let ?g = "sampleGithub Map.empty []"
  have c: "client ?g = Some sampleClient" by (simp add: sampleGithub_def)
  have o: "cfgOwner (config ?a) = ''acme''" "cfgRepo (config ?a) = ''widget''"
    by (simp_all add: sampleGithubApp_def sampleConfig_def)
  have r: "RepositoriesGet sampleEnv (cfgOwner (config ?a)) (cfgRepo (config ?a)) = None"
    by (simp add: sampleEnv_def)
  have h: "CreateHook sampleEnv ''acme'' ''widget'' (hookFor sampleEnv ?a)
       = Some ''422 Hook already exists on this repository''"
    by (simp add: sampleEnv_def)
  have nm: "GetHTTPServerURL sampleEnv = ''http://ci.example.com''" "AppName (app ?a) = ''widget-ci''"
    by (simp_all add: sampleEnv_def sampleGithubApp_def sampleApp_def)
  have g0: "calls ?g = []" "logged ?g = []" by (simp_all add: sampleGithub_def)
  note W = webhook_registration [OF c r]
  from W have 1: "calls (snd (setupHooks sampleEnv ?a ?g))
       = [CreateHookCall ''acme'' ''widget'' (hookFor sampleEnv ?a)]"
    by (simp add: o g0)
  from W h sampleHookAnswer
  have "setupHooks sampleEnv ?a ?g =
          (Returned, ?g\<lparr>calls := calls ?g @ [CreateHookCall ''acme'' ''widget'' (hookFor sampleEnv ?a)]\<rparr>)"
    unfolding o by blast
  then have 2: "logged (snd (setupHooks sampleEnv ?a ?g)) = []" by (simp add: g0)
  from W have 3: "HookConfig (hookFor sampleEnv ?a) ''url'' = Some ''http://ci.example.com/cb/github/hook/widget-ci''"
    by (simp add: nm)
  show ?thesis using c r h 1 2 3 by blast
qed

text \<open>
  Claim C8 as stated fails: the hook that \<open>setupHooks\<close> asks for subscribes to
  \<open>pull_request_review_event\<close> too, which is none of the six events of the claim.
\<close>

theorem webhook_events_counterexample:
  "calls (snd (setupHooks sampleEnv (sampleGithubApp True) (sampleGithub Map.empty [])))
     = [CreateHookCall ''acme'' ''widget'' (hookFor sampleEnv (sampleGithubApp True))]
   \<and> ''pull_request_review_event'' \<in> set (Events (hookFor sampleEnv (sampleGithubApp True)))
   \<and> set (Events (hookFor sampleEnv (sampleGithubApp True)))
       \<noteq> {''pull_request'', ''delete'', ''issue_comment'', ''pull_request_review'', ''push'', ''status''}"
proof -
  have 1: "calls (snd (setupHooks sampleEnv (sampleGithubApp True) (sampleGithub Map.empty [])))
     = [CreateHookCall ''acme'' ''widget'' (hookFor sampleEnv (sampleGithubApp True))]"
    by (simp add: setupHooks_def Let_def sampleGithub_def sampleEnv_def sampleGithubApp_def
        sampleConfig_def logwarnf_def)
  have 2: "''pull_request_review_event'' \<in> set (Events (hookFor sampleEnv (sampleGithubApp True)))"
    by (simp add: hookFor_def hookEvents_def)
  have 3: "''pull_request_review_event''
      \<notin> {''pull_request'', ''delete'', ''issue_comment'', ''pull_request_review'', ''push'', ''status''}"
    by simp
  from 2 3 have "set (Events (hookFor sampleEnv (sampleGithubApp True)))
       \<noteq> {''pull_request'', ''delete'', ''issue_comment'', ''pull_request_review'', ''push'', ''status''}"
    by metis
  with 1 2 show ?thesis by blast
qed

subsection \<open>The merge-on-pass flag of a new entry\<close>

text \<open>
  Claim C9, as the code has it. An entry that \<open>trackPullRequest\<close>,
  \<open>updatePullRequest\<close> or \<open>buildPullRequest\<close> creates has \<open>mergeOnPass = False\<close>,
  whatever the configuration of the application says.
\<close>

theorem created_entry_merge_on_pass:
  "(\<forall>k st. trackedPullRequests g k = None
            \<and> trackedPullRequests (snd (trackPullRequest w a ev g)) k = Some st
            \<longrightarrow> mergeOnPass st = False)
   \<and> (\<forall>k st. trackedPullRequests g k = None
            \<and> trackedPullRequests (snd (updatePullRequest w a ev g)) k = Some st
            \<longrightarrow> mergeOnPass st = False)
   \<and> (\<forall>k st. trackedPullRequests g k = None
            \<and> trackedPullRequests (snd (buildPullRequest a p g)) k = Some st
            \<longrightarrow> mergeOnPass st = False)"
  using trackPullRequest_created [of g _ w a ev] updatePullRequest_created [of g _ w a ev]
    buildPullRequest_created [of g _ a p]
  by blast

theorem created_entry_merge_on_pass_witness:
  "trackedPullRequests (sampleGithub Map.empty []) ''7'' = None
   \<and> trackedPullRequests
        (snd (trackPullRequest sampleEnv (sampleGithubApp True)
                (sampleEvent ''alice'' ''master'' ''abc123'') (sampleGithub Map.empty []))) ''7''
       = Some \<lparr>pull = samplePull ''alice'' ''master'' ''abc123'', currentBuild = ''build-abc123'',
                mergeOnPass = False\<rparr>
   \<and> mergeOnPass \<lparr>pull = samplePull ''alice'' ''master'' ''abc123'', currentBuild = ''build-abc123'',
                   mergeOnPass = False\<rparr> = False"
proof -
  let ?g = "sampleGithub Map.empty []"
  let ?st = "\<lparr>pull = samplePull ''alice'' ''master'' ''abc123'', currentBuild = ''build-abc123'',
               mergeOnPass = False\<rparr>"
  have 1: "trackedPullRequests ?g ''7'' = None" by (simp add: sampleGithub_fields)
  have 2: "trackedPullRequests
        (snd (trackPullRequest sampleEnv (sampleGithubApp True)
                (sampleEvent ''alice'' ''master'' ''abc123'') ?g)) ''7'' = Some ?st"
    by (simp add: sample_opened)
  from created_entry_merge_on_pass
    [of ?g sampleEnv "sampleGithubApp True" "sampleEvent ''alice'' ''master'' ''abc123''"] 1 2
  have "mergeOnPass ?st = False" by blast
  with 1 2 show ?thesis by blast
qed

text \<open>
  Claim C9 as stated fails: the application is configured with merge-on-pass, and the
  entry created for pull request 7 has \<open>mergeOnPass = False\<close>.
\<close>

theorem merge_on_pass_counterexample:
  "MergeOnPass (config (sampleGithubApp True)) = True
   \<and> trackedPullRequests (sampleGithub Map.empty []) ''7'' = None
   \<and> map_option mergeOnPass
        (trackedPullRequests
           (snd (trackPullRequest sampleEnv (sampleGithubApp True)
                   (sampleEvent ''alice'' ''master'' ''abc123'') (sampleGithub Map.empty []))) ''7'')
       = Some False"
proof -
  have 1: "MergeOnPass (config (sampleGithubApp True)) = True"
    by (simp add: sampleGithubApp_def sampleConfig_def)
  have 2: "map_option mergeOnPass
        (trackedPullRequests
           (snd (trackPullRequest sampleEnv (sampleGithubApp True)
                   (sampleEvent ''alice'' ''master'' ''abc123'') (sampleGithub Map.empty []))) ''7'')
       = Some False"
    by (simp add: sample_opened)
  from 1 2 show ?thesis by (simp add: sampleGithub_fields)
qed

subsection \<open>Tracking an identifier that is already tracked\<close>



end
